theory Spec2Isabelle
  imports Complex_Main "HOL-Library.Sublist"
begin

section \<open>JavaScript numbers\<close>

text \<open>
  A JavaScript number is an IEEE 754 double. A finite double is modelled as the real it
  denotes, next to the three values that are not finite; the sign of zero is abstracted.
\<close>

datatype jsnum = NaN | NegInfinity | Finite real | PosInfinity

text \<open>The nearest integer, a tie going to the even one.\<close>

definition round_ties_even :: "real \<Rightarrow> int" where
  "round_ties_even y =
     (let n = \<lfloor>y\<rfloor>; r = y - of_int n in
      if r < 1 / 2 then n else if 1 / 2 < r then n + 1 else if even n then n else n + 1)"

text \<open>
  The exponent \<open>e\<close> of the unit in the last place of a positive \<open>x\<close>: the doubles around
  \<open>x\<close> are the multiples of \<open>2 ^ e\<close>, where \<open>2 ^ 52 \<le> x / 2 ^ e < 2 ^ 53\<close> and \<open>e\<close> is not
  below \<open>-1074\<close> (the subnormal numbers). The search is called with \<open>x\<close> and 0 and runs for
  at most the given number of steps.
\<close>

fun ulp_exponent :: "nat \<Rightarrow> real \<Rightarrow> int \<Rightarrow> int" where
  "ulp_exponent 0 x e = e"
| "ulp_exponent (Suc n) x e =
     (if 2 ^ 53 \<le> x then ulp_exponent n (x / 2) (e + 1)
      else if x < 2 ^ 52 \<and> - 1074 < e then ulp_exponent n (x * 2) (e - 1)
      else e)"

text \<open>
  Rounding to the nearest double, ties to even, with no bound on the exponent: what an
  arithmetic operation of JavaScript returns for the exact result \<open>x\<close> as long as the
  result is below \<open>2 ^ 1024\<close> in magnitude. 2200 steps reach every exponent of a double.
\<close>

definition rd :: "real \<Rightarrow> real" where
  "rd x =
     (if x = 0 then 0
      else let e = ulp_exponent 2200 \<bar>x\<bar> 0 in
           if 0 \<le> e then of_int (round_ties_even (x / 2 ^ nat e)) * 2 ^ nat e
           else of_int (round_ties_even (x * 2 ^ nat (- e))) / 2 ^ nat (- e))"

text \<open>The same with overflow: a result of magnitude \<open>2 ^ 1024\<close> or more is infinite.\<close>

definition double :: "real \<Rightarrow> jsnum" where
  "double x =
     (let y = rd x in
      if 2 ^ 1024 \<le> y then PosInfinity
      else if y \<le> - (2 ^ 1024) then NegInfinity
      else Finite y)"

text \<open>The operators \<open>+\<close>, \<open>-\<close> and \<open>/\<close> on numbers, \<open>Math.pow(x, 2)\<close>, \<open>Math.sqrt\<close> and \<open>Math.max\<close>.\<close>

fun js_neg :: "jsnum \<Rightarrow> jsnum" where
  "js_neg NaN = NaN"
| "js_neg NegInfinity = PosInfinity"
| "js_neg PosInfinity = NegInfinity"
| "js_neg (Finite x) = Finite (- x)"

fun js_add :: "jsnum \<Rightarrow> jsnum \<Rightarrow> jsnum" where
  "js_add (Finite x) (Finite y) = double (x + y)"
| "js_add NaN b = NaN"
| "js_add a NaN = NaN"
| "js_add PosInfinity NegInfinity = NaN"
| "js_add NegInfinity PosInfinity = NaN"
| "js_add PosInfinity b = PosInfinity"
| "js_add a PosInfinity = PosInfinity"
| "js_add NegInfinity b = NegInfinity"
| "js_add a NegInfinity = NegInfinity"

definition js_sub :: "jsnum \<Rightarrow> jsnum \<Rightarrow> jsnum" where
  "js_sub a b = js_add a (js_neg b)"

fun js_div :: "jsnum \<Rightarrow> jsnum \<Rightarrow> jsnum" where
  "js_div (Finite x) (Finite y) =
     (if y = 0 then (if x = 0 then NaN else if 0 < x then PosInfinity else NegInfinity)
      else double (x / y))"
| "js_div NaN b = NaN"
| "js_div a NaN = NaN"
| "js_div (Finite x) b = Finite 0"
| "js_div a (Finite y) = (if 0 \<le> y then a else js_neg a)"
| "js_div a b = NaN"




text \<open>\<open>Math.round\<close>: the nearest integer, a tie going to the larger one.\<close>

definition Math_round :: "real \<Rightarrow> real" where
  "Math_round x = of_int \<lfloor>x + 1 / 2\<rfloor>"

text \<open>
  \<open>Math.max(0, Math.min(x || 0, m))\<close> for a parsed number \<open>x\<close> and a finite \<open>m\<close>:
  \<open>NaN || 0\<close> is \<open>0\<close>, \<open>Math.min(Infinity, m)\<close> is \<open>m\<close>, and
  \<open>Math.max(0, -Infinity)\<close> is \<open>0\<close>. Neither function rounds.
\<close>

fun clamp_score :: "jsnum \<Rightarrow> real \<Rightarrow> real" where
  "clamp_score NaN m = max 0 (min 0 m)"
| "clamp_score (Finite r) m = max 0 (min r m)"
| "clamp_score PosInfinity m = max 0 m"
| "clamp_score NegInfinity m = 0"

text \<open>\<open>x || d\<close> on a number that is not \<open>NaN\<close>: zero is falsy.\<close>

definition or_default :: "real \<Rightarrow> real \<Rightarrow> real" where
  "or_default x d = (if x = 0 then d else x)"

section \<open>JavaScript values and strings\<close>

text \<open>
  A value of a JSON request body. The number of a \<open>JNum\<close> is a double. An array or an
  object is represented by \<open>JObj s\<close>, where \<open>s\<close> is the string that \<open>ToString\<close> yields for
  it; that string is all \<open>parseFloat\<close> looks at. Strings are UTF-8 byte sequences.
\<close>

datatype jsval = JUndefined | JNull | JBool bool | JNum jsnum | JStr string | JObj string

text \<open>\<open>StrWhiteSpaceChar\<close> of ECMAScript (white space and line terminators), in UTF-8.\<close>

definition StrWhiteSpaceChar :: "string list" where
  "StrWhiteSpaceChar =
     [[CHR 0x09], [CHR 0x0A], [CHR 0x0B], [CHR 0x0C], [CHR 0x0D], [CHR 0x20],
      [CHR 0xC2, CHR 0xA0], [CHR 0xE1, CHR 0x9A, CHR 0x80],
      [CHR 0xE2, CHR 0x80, CHR 0x80], [CHR 0xE2, CHR 0x80, CHR 0x81],
      [CHR 0xE2, CHR 0x80, CHR 0x82], [CHR 0xE2, CHR 0x80, CHR 0x83],
      [CHR 0xE2, CHR 0x80, CHR 0x84], [CHR 0xE2, CHR 0x80, CHR 0x85],
      [CHR 0xE2, CHR 0x80, CHR 0x86], [CHR 0xE2, CHR 0x80, CHR 0x87],
      [CHR 0xE2, CHR 0x80, CHR 0x88], [CHR 0xE2, CHR 0x80, CHR 0x89],
      [CHR 0xE2, CHR 0x80, CHR 0x8A], [CHR 0xE2, CHR 0x80, CHR 0xA8],
      [CHR 0xE2, CHR 0x80, CHR 0xA9], [CHR 0xE2, CHR 0x80, CHR 0xAF],
      [CHR 0xE2, CHR 0x81, CHR 0x9F], [CHR 0xE3, CHR 0x80, CHR 0x80],
      [CHR 0xEF, CHR 0xBB, CHR 0xBF]]"

text \<open>Removing from the front of a string every leading occurrence of one of the given sequences.\<close>

function strip :: "string list \<Rightarrow> string \<Rightarrow> string" where
  "strip ws s =
     (case find (\<lambda>w. prefix w s) ws of
        None \<Rightarrow> s
      | Some w \<Rightarrow> if w = [] then s else strip ws (drop (length w) s))"
  by pat_completeness auto
termination
proof (relation "measure (\<lambda>(ws, s). length s)")
  show "wf (measure (\<lambda>(ws, s). length s))" by simp
next
  fix ws :: "string list" and s :: string and w :: string
  assume f: "find (\<lambda>w. prefix w s) ws = Some w" and ne: "w \<noteq> []"
  from f have "prefix w s" by (auto simp: find_Some_iff)
  then have "length w \<le> length s" by (rule prefix_length_le)
  with ne show "((ws, drop (length w) s), (ws, s)) \<in> measure (\<lambda>(ws, s). length s)"
    by (cases w) auto
qed

definition TrimLeft :: "string \<Rightarrow> string" where
  "TrimLeft s = strip StrWhiteSpaceChar s"

definition TrimRight :: "string \<Rightarrow> string" where
  "TrimRight s = rev (strip (map rev StrWhiteSpaceChar) (rev s))"

definition is_digit :: "char \<Rightarrow> bool" where
  "is_digit c = (48 \<le> (of_char c :: nat) \<and> (of_char c :: nat) \<le> 57)"

definition digits_val :: "string \<Rightarrow> nat" where
  "digits_val ds = foldl (\<lambda>a c. 10 * a + ((of_char c :: nat) - 48)) 0 ds"

definition take_sign :: "string \<Rightarrow> bool \<times> string" where
  "take_sign s =
     (case s of
        [] \<Rightarrow> (False, s)
      | c # r \<Rightarrow> if c = CHR ''-'' then (True, r) else if c = CHR ''+'' then (False, r) else (False, s))"

text \<open>The exponent part at the front of a string, if there is one, and the rest of the string.\<close>

definition ExponentPart :: "string \<Rightarrow> int \<times> string" where
  "ExponentPart s =
     (case s of
        [] \<Rightarrow> (0, s)
      | c # r \<Rightarrow>
          if c = CHR ''e'' \<or> c = CHR ''E'' then
            (let (neg, r') = take_sign r; ds = takeWhile is_digit r' in
             if ds = [] then (0, s)
             else (if neg then - int (digits_val ds) else int (digits_val ds),
                   dropWhile is_digit r'))
          else (0, s))"

text \<open>
  The longest prefix of the string that is a \<open>StrDecimalLiteral\<close>, as the nearest double,
  and the rest of the string; \<open>NaN\<close> when no prefix is one.
\<close>

definition StrDecimalLiteral_prefix :: "string \<Rightarrow> jsnum \<times> string" where
  "StrDecimalLiteral_prefix s =
     (let (neg, s1) = take_sign s in
      if prefix ''Infinity'' s1 then (if neg then NegInfinity else PosInfinity, drop 8 s1)
      else
        let ip = takeWhile is_digit s1;
            r1 = dropWhile is_digit s1;
            (fp, r2) = (case r1 of
                          [] \<Rightarrow> ([], r1)
                        | c # r \<Rightarrow> if c = CHR ''.''
                                   then (takeWhile is_digit r, dropWhile is_digit r)
                                   else ([], r1))
        in if ip = [] \<and> fp = [] then (NaN, s)
           else
             let (ex, r3) = ExponentPart r2;
                 m = real (digits_val ip) + real (digits_val fp) / 10 ^ length fp;
                 v = (if 0 \<le> ex then m * 10 ^ nat ex else m / 10 ^ nat (- ex))
             in (double (if neg then - v else v), r3))"

definition StrDecimalLiteral :: "string \<Rightarrow> jsnum" where
  "StrDecimalLiteral s = fst (StrDecimalLiteral_prefix s)"

text \<open>
  \<open>parseFloat\<close> converts its argument to a string, skips leading white space and reads a
  decimal literal. A number converts to a string that reads back as the same number.
\<close>

fun parseFloat :: "jsval \<Rightarrow> jsnum" where
  "parseFloat (JNum n) = n"
| "parseFloat (JStr s) = StrDecimalLiteral (TrimLeft s)"
| "parseFloat (JObj s) = StrDecimalLiteral (TrimLeft s)"
| "parseFloat (JBool b) = StrDecimalLiteral (TrimLeft (if b then ''true'' else ''false''))"
| "parseFloat JNull = StrDecimalLiteral (TrimLeft ''null'')"
| "parseFloat JUndefined = StrDecimalLiteral (TrimLeft ''undefined'')"

text \<open>
  The value of a digit in a literal of base 16, 8 or 2, and the literal after its prefix:
  \<open>NaN\<close> unless it consists of digits of the base.
\<close>

definition digit_value :: "char \<Rightarrow> nat" where
  "digit_value c =
     (let k = (of_char c :: nat) in
      if 48 \<le> k \<and> k \<le> 57 then k - 48
      else if 97 \<le> k \<and> k \<le> 102 then k - 87
      else if 65 \<le> k \<and> k \<le> 70 then k - 55
      else 16)"

definition radix_literal :: "nat \<Rightarrow> string \<Rightarrow> jsnum" where
  "radix_literal b ds =
     (if ds \<noteq> [] \<and> list_all (\<lambda>c. digit_value c < b) ds
      then double (real (foldl (\<lambda>a c. b * a + digit_value c) 0 ds))
      else NaN)"

text \<open>
  \<open>ToNumber\<close> of a string: white space is trimmed at both ends, the empty string is 0,
  and the whole rest has to be one numeric literal.
\<close>

definition StringToNumber :: "string \<Rightarrow> jsnum" where
  "StringToNumber s =
     (let t = TrimRight (TrimLeft s) in
      if t = [] then Finite 0
      else if take 2 t = ''0x'' \<or> take 2 t = ''0X'' then radix_literal 16 (drop 2 t)
      else if take 2 t = ''0o'' \<or> take 2 t = ''0O'' then radix_literal 8 (drop 2 t)
      else if take 2 t = ''0b'' \<or> take 2 t = ''0B'' then radix_literal 2 (drop 2 t)
      else case StrDecimalLiteral_prefix t of (v, rest) \<Rightarrow> if rest = [] then v else NaN)"

text \<open>\<open>x || null\<close> on an optional string: the empty string is falsy.\<close>

definition or_null :: "string option \<Rightarrow> string option" where
  "or_null x = (case x of None \<Rightarrow> None | Some s \<Rightarrow> if s = [] then None else Some s)"

text \<open>Truthiness of a JavaScript value.\<close>

fun truthy :: "jsval \<Rightarrow> bool" where
  "truthy JUndefined = False"
| "truthy JNull = False"
| "truthy (JBool b) = b"
| "truthy (JNum n) = (n \<noteq> NaN \<and> n \<noteq> Finite 0)"
| "truthy (JStr s) = (s \<noteq> [])"
| "truthy (JObj s) = True"

section \<open>Data model: the rows of the store and the request bodies\<close>

text \<open>
  The field names are the column names, prefixed by the alias the queries of the source
  use for the table (\<open>v\<close>, \<open>e\<close>, \<open>ed\<close>, \<open>ec\<close>, \<open>ar\<close>; \<open>fr\<close> for freeze records).
  Columns that no modelled statement reads are left out, among them the message of an
  alert and all timestamps. Identifiers are strings, and the submitted \<open>criteria_id\<close>
  and \<open>choice_value\<close> are strings or absent.

  The pool sets no type parser, so the driver hands an integer or float column to the
  handlers as a number and a \<open>NUMERIC\<close> column as the decimal string of its value. The
  weight of a criterion, which may be 0, is modelled as the handlers receive it
  (\<open>column\<close>). \<open>max_score\<close> is the number the column holds: it is positive, and for a
  positive value both deliveries give the same number in every expression of the loop.
  A query compares and counts the values the columns hold.

  \<open>ec_choices\<close> is the JSON object of a choice criterion, a table from labels to numbers
  (\<open>None\<close> is SQL \<open>NULL\<close>); a label that names a property every JavaScript object inherits
  is outside the model.
\<close>

type_synonym uuid = string

datatype column = SqlNull | AsNumber real | AsString real

datatype data_type = Numeric | Boolean | Choice | Text

record criterion =
  ec_id :: uuid
  ec_name_ar :: string
  ec_data_type :: data_type
  ec_max_score :: real
  ec_weight :: column
  ec_choices :: "(string \<rightharpoonup> real) option"
  ec_applies_to_role :: string
  ec_is_active :: bool

record criteriaScore =
  criteria_id :: uuid
  score_value :: jsval
  text_value :: "string option"
  choice_value :: "string option"
  boolean_value :: jsval
  notes_value :: "string option"

record evaluation_detail =
  ed_evaluation_id :: uuid
  ed_criteria_id :: uuid
  ed_score_value :: "real option"
  ed_text_value :: "string option"
  ed_choice_value :: "string option"
  ed_boolean_value :: "jsval option"
  ed_notes :: "string option"
  ed_weight_used :: column

record volunteer =
  v_id :: uuid
  v_full_name :: string
  v_role_type :: string
  v_is_active :: bool

datatype status = Draft | Approved

record evaluation =
  e_id :: uuid
  e_volunteer_id :: uuid
  e_evaluator_id :: uuid
  e_evaluation_month :: int
  e_evaluation_year :: int
  e_is_frozen :: bool
  e_freeze_reason :: "string option"
  e_freeze_start_date :: "string option"
  e_freeze_end_date :: "string option"
  e_human_note :: "string option"
  e_praise_note :: "string option"
  e_improvement_suggestions :: "string option"
  e_status :: status
  e_total_score :: "real option"
  e_max_possible_score :: "real option"
  e_percentage :: "real option"

record freeze_record =
  fr_volunteer_id :: uuid
  fr_freeze_year :: int
  fr_start_date :: "string option"
  fr_end_date :: "string option"
  fr_reason :: "string option"
  fr_evaluation_month :: int
  fr_evaluation_year :: int
  fr_approved_by :: uuid
  fr_is_active :: bool

datatype alert_type = weak_performance | no_interaction | improvement_needed | achievement

datatype severity = low | medium | high

record trigger_condition =
  tc_type :: string
  tc_months :: nat
  tc_threshold :: nat

record alert_record =
  ar_volunteer_id :: uuid
  ar_alert_type :: alert_type
  ar_trigger_condition :: trigger_condition
  ar_severity :: severity
  ar_consecutive_months :: nat
  ar_is_resolved :: bool

record db =
  volunteers :: "volunteer list"
  evaluations :: "evaluation list"
  evaluation_details :: "evaluation_detail list"
  evaluation_criteria :: "criterion list"
  freeze_records :: "freeze_record list"
  alert_records :: "alert_record list"

text \<open>
  What the middleware hands to a handler: the result of the express-validator chain
  (\<open>validationResult(req)\<close>) and the authenticated user.
\<close>

record request =
  validation_errors :: "string list"
  user_id :: uuid
  user_role :: string

record create_body =
  volunteer_id :: uuid
  evaluation_month :: int
  evaluation_year :: int
  criteria_scores :: "criteriaScore list"
  human_note :: "string option"
  praise_note :: "string option"
  improvement_suggestions :: "string option"
  is_frozen :: bool
  freeze_reason :: "string option"
  freeze_start_date :: "string option"
  freeze_end_date :: "string option"

text \<open>
  The body of an update: \<open>None\<close> is a property that is absent (\<open>undefined\<close>); a note that
  is present may be \<open>null\<close>.
\<close>

record update_body =
  u_criteria_scores :: "criteriaScore list option"
  u_human_note :: "string option option"
  u_praise_note :: "string option option"
  u_improvement_suggestions :: "string option option"
  u_is_frozen :: "bool option"
  u_freeze_reason :: "string option option"
  u_freeze_start_date :: "string option option"
  u_freeze_end_date :: "string option option"

datatype error =
    INVALID_DATA
  | VOLUNTEER_NOT_FOUND
  | EVALUATION_EXISTS
  | INCOMPLETE_FREEZE_DATA
  | FREEZE_LIMIT_EXCEEDED
  | EVALUATION_NOT_FOUND
  | UNAUTHORIZED_EDIT
  | EVALUATION_APPROVED
  | UPDATE_EVALUATION_ERROR

fun http_status :: "error \<Rightarrow> nat" where
  "http_status INVALID_DATA = 400"
| "http_status VOLUNTEER_NOT_FOUND = 404"
| "http_status EVALUATION_EXISTS = 409"
| "http_status INCOMPLETE_FREEZE_DATA = 400"
| "http_status FREEZE_LIMIT_EXCEEDED = 409"
| "http_status EVALUATION_NOT_FOUND = 404"
| "http_status UNAUTHORIZED_EDIT = 403"
| "http_status EVALUATION_APPROVED = 409"
| "http_status UPDATE_EVALUATION_ERROR = 500"

section \<open>Score resolution and aggregation (evaluations.js)\<close>

text \<open>
  The body of the loop over \<open>criteria_scores\<close> is the same text in the create handler
  (lines 359 to 396) and in the update handler (lines 585 to 615); it is modelled once.
  Its numbers are finite doubles: every product and sum is rounded to the nearest double
  (\<open>rd\<close>). Weights so large that a product or a sum reaches \<open>2 ^ 1024\<close>, where JavaScript
  continues with \<open>Infinity\<close>, are outside the model.

  \<open>finalScore\<close> is the value of the variable after the \<open>if\<close> chain. In the choice branch
  the label is present, \<open>choice_value\<close> being truthy there, and \<open>0.8\<close> is the double
  nearest to it.
\<close>

definition finalScore :: "criterion \<Rightarrow> criteriaScore \<Rightarrow> real" where
  "finalScore criterion cs =
     (if ec_data_type criterion = Numeric \<and> score_value cs \<noteq> JUndefined \<and> score_value cs \<noteq> JNull
      then clamp_score (parseFloat (score_value cs)) (ec_max_score criterion)
      else if ec_data_type criterion = Boolean
      then (if boolean_value cs = JBool True then ec_max_score criterion else 0)
      else if ec_data_type criterion = Choice \<and> or_null (choice_value cs) \<noteq> None
      then (let choices = (case ec_choices criterion of None \<Rightarrow> Map.empty | Some t \<Rightarrow> t) in
            case choices (the (choice_value cs)) of
              None \<Rightarrow> rd (ec_max_score criterion * rd (8 / 10))
            | Some v \<Rightarrow> or_default v (rd (ec_max_score criterion * rd (8 / 10))))
      else 0)"

text \<open>
  \<open>parseFloat(criterion.weight || 1)\<close>: a weight that is \<open>null\<close> or the number 0 gives 1; a
  weight delivered as a string is truthy and parses to its value, also when that is 0.
\<close>

definition weight_factor :: "criterion \<Rightarrow> real" where
  "weight_factor criterion =
     (case ec_weight criterion of
        SqlNull \<Rightarrow> 1
      | AsNumber w \<Rightarrow> or_default w 1
      | AsString w \<Rightarrow> rd w)"

definition weightedScore :: "criterion \<Rightarrow> criteriaScore \<Rightarrow> real" where
  "weightedScore criterion cs = rd (finalScore criterion cs * weight_factor criterion)"

definition maxWeightedScore :: "criterion \<Rightarrow> real" where
  "maxWeightedScore criterion =
     rd (or_default (ec_max_score criterion) 10 * weight_factor criterion)"

text \<open>The row that the loop body inserts into \<open>evaluation_details\<close>.\<close>

definition detail_row :: "uuid \<Rightarrow> criterion \<Rightarrow> criteriaScore \<Rightarrow> evaluation_detail" where
  "detail_row evaluation_id criterion cs =
     \<lparr> ed_evaluation_id = evaluation_id,
       ed_criteria_id = criteria_id cs,
       ed_score_value = (if finalScore criterion cs = 0 then None else Some (finalScore criterion cs)),
       ed_text_value = or_null (text_value cs),
       ed_choice_value = or_null (choice_value cs),
       ed_boolean_value = (if truthy (boolean_value cs) then Some (boolean_value cs) else None),
       ed_notes = or_null (notes_value cs),
       ed_weight_used = ec_weight criterion \<rparr>"

text \<open>
  The state of the loop over \<open>criteria_scores\<close>: the two running sums and the
  \<open>evaluation_details\<close> table.
\<close>

record accumulation =
  totalScore :: real
  maxPossibleScore :: real
  details :: "evaluation_detail list"

text \<open>The loop body for an entry whose criterion was found.\<close>

definition accumulate :: "uuid \<Rightarrow> criterion \<Rightarrow> criteriaScore \<Rightarrow> accumulation \<Rightarrow> accumulation" where
  "accumulate evaluation_id criterion cs acc =
     \<lparr> totalScore = rd (totalScore acc + weightedScore criterion cs),
       maxPossibleScore = rd (maxPossibleScore acc + maxWeightedScore criterion),
       details = details acc @ [detail_row evaluation_id criterion cs] \<rparr>"

fun score_loop :: "criterion list \<Rightarrow> uuid \<Rightarrow> criteriaScore list \<Rightarrow> accumulation \<Rightarrow> accumulation" where
  "score_loop availableCriteria evaluation_id [] acc = acc"
| "score_loop availableCriteria evaluation_id (cs # rest) acc =
     (case find (\<lambda>c. ec_id c = criteria_id cs) availableCriteria of
        None \<Rightarrow> score_loop availableCriteria evaluation_id rest acc
      | Some criterion \<Rightarrow>
          score_loop availableCriteria evaluation_id rest
            (accumulate evaluation_id criterion cs acc))"

text \<open>
  \<open>maxPossibleScore > 0 ? Math.round((totalScore / maxPossibleScore) * 100 * 100) / 100 : 0\<close>,
  the division and the two products rounded one after the other.
\<close>

definition percentage_of :: "real \<Rightarrow> real \<Rightarrow> real" where
  "percentage_of tot maxPossible =
     (if maxPossible > 0
      then rd (Math_round (rd (rd (rd (tot / maxPossible) * 100) * 100)) / 100)
      else 0)"

text \<open>
  The criteria query: active criteria that apply to the role or to \<open>all\<close>. Its
  \<open>ORDER BY\<close> is left out, the loop looking a criterion up by its primary key.
\<close>

definition availableCriteria :: "db \<Rightarrow> string \<Rightarrow> criterion list" where
  "availableCriteria d role =
     filter (\<lambda>c. ec_is_active c \<and> (ec_applies_to_role c = role \<or> ec_applies_to_role c = ''all''))
       (evaluation_criteria d)"

text \<open>\<open>UPDATE evaluations SET total_score, max_possible_score, percentage WHERE id\<close>.\<close>

definition set_totals :: "uuid \<Rightarrow> accumulation \<Rightarrow> evaluation list \<Rightarrow> evaluation list" where
  "set_totals i acc rows =
     map (\<lambda>e. if e_id e = i
               then e\<lparr> e_total_score := Some (totalScore acc),
                       e_max_possible_score := Some (maxPossibleScore acc),
                       e_percentage := Some (percentage_of (totalScore acc) (maxPossibleScore acc)) \<rparr>
               else e) rows"

section \<open>Creating an evaluation (POST /api/evaluations)\<close>

text \<open>
  Modelled from the spec: the default of the column \<open>is_active\<close> of \<open>freeze_records\<close>. The
  table's schema is not in the route files, and the insert statement leaves the column to
  the store. The spec counts "existing active freeze records", so a record is active once
  inserted.
\<close>

definition freeze_is_active_default :: bool where
  "freeze_is_active_default = True"

text \<open>\<open>SELECT COUNT(*) FROM freeze_records WHERE volunteer_id, freeze_year, is_active\<close>.\<close>

definition freezeCount :: "db \<Rightarrow> uuid \<Rightarrow> int \<Rightarrow> nat" where
  "freezeCount d vid yr =
     length (filter (\<lambda>f. fr_volunteer_id f = vid \<and> fr_freeze_year f = yr \<and> fr_is_active f)
               (freeze_records d))"

text \<open>The row that the create handler inserts into \<open>freeze_records\<close>.\<close>

definition new_freeze_record :: "request \<Rightarrow> create_body \<Rightarrow> freeze_record" where
  "new_freeze_record req body =
     \<lparr> fr_volunteer_id = volunteer_id body,
       fr_freeze_year = evaluation_year body,
       fr_start_date = freeze_start_date body,
       fr_end_date = freeze_end_date body,
       fr_reason = freeze_reason body,
       fr_evaluation_month = evaluation_month body,
       fr_evaluation_year = evaluation_year body,
       fr_approved_by = user_id req,
       fr_is_active = freeze_is_active_default \<rparr>"

text \<open>
  The transaction of the create handler. \<open>new_id\<close> is the primary key that the store
  gives to the inserted evaluation.
\<close>

definition create_transaction ::
  "request \<Rightarrow> create_body \<Rightarrow> uuid \<Rightarrow> volunteer \<Rightarrow> db \<Rightarrow> evaluation \<times> db" where
  "create_transaction req body new_id vol d =
     (let evaluation =
            \<lparr> e_id = new_id,
              e_volunteer_id = volunteer_id body,
              e_evaluator_id = user_id req,
              e_evaluation_month = evaluation_month body,
              e_evaluation_year = evaluation_year body,
              e_is_frozen = is_frozen body,
              e_freeze_reason = or_null (freeze_reason body),
              e_freeze_start_date = or_null (freeze_start_date body),
              e_freeze_end_date = or_null (freeze_end_date body),
              e_human_note = or_null (human_note body),
              e_praise_note = or_null (praise_note body),
              e_improvement_suggestions = or_null (improvement_suggestions body),
              e_status = Draft,
              e_total_score = None,
              e_max_possible_score = None,
              e_percentage = None \<rparr>;
          d1 = d\<lparr> evaluations := evaluations d @ [evaluation] \<rparr>;
          acc = score_loop (availableCriteria d1 (v_role_type vol)) new_id (criteria_scores body)
                  \<lparr> totalScore = 0, maxPossibleScore = 0, details = evaluation_details d1 \<rparr>;
          percentage = percentage_of (totalScore acc) (maxPossibleScore acc);
          d2 = d1\<lparr> evaluation_details := details acc,
                   evaluations := set_totals new_id acc (evaluations d1) \<rparr>;
          d3 = (if is_frozen body
                then d2\<lparr> freeze_records := freeze_records d2 @ [new_freeze_record req body] \<rparr>
                else d2)
      in (evaluation\<lparr> e_percentage := Some percentage,
                       e_total_score := Some (totalScore acc),
                       e_max_possible_score := Some (maxPossibleScore acc) \<rparr>, d3))"

text \<open>
  The handler: the response (an error code, or the created evaluation with status 201)
  and the store after the request. Every early return leaves the store as it was. The
  statements on the store are taken to succeed (a failing one ends the request with
  status 500 and rolls the transaction back).
\<close>

definition create_evaluation ::
  "request \<Rightarrow> create_body \<Rightarrow> uuid \<Rightarrow> db \<Rightarrow> (error + evaluation) \<times> db" where
  "create_evaluation req body new_id d =
     (if validation_errors req \<noteq> [] then (Inl INVALID_DATA, d)
      else
        case filter (\<lambda>v. v_id v = volunteer_id body \<and> v_is_active v) (volunteers d) of
          [] \<Rightarrow> (Inl VOLUNTEER_NOT_FOUND, d)
        | vol # _ \<Rightarrow>
            if filter (\<lambda>e. e_volunteer_id e = volunteer_id body
                           \<and> e_evaluation_month e = evaluation_month body
                           \<and> e_evaluation_year e = evaluation_year body) (evaluations d) \<noteq> []
            then (Inl EVALUATION_EXISTS, d)
            else if is_frozen body
                    \<and> (or_null (freeze_reason body) = None
                        \<or> or_null (freeze_start_date body) = None
                        \<or> or_null (freeze_end_date body) = None)
            then (Inl INCOMPLETE_FREEZE_DATA, d)
            else if is_frozen body
                    \<and> freezeCount d (volunteer_id body) (evaluation_year body) \<ge> 2
            then (Inl FREEZE_LIMIT_EXCEEDED, d)
            else (case create_transaction req body new_id vol d of (ev, d') \<Rightarrow> (Inr ev, d')))"

section \<open>Updating an evaluation (PUT /api/evaluations/:id)\<close>

definition has_updates :: "update_body \<Rightarrow> bool" where
  "has_updates body =
     (u_human_note body \<noteq> None \<or> u_praise_note body \<noteq> None
      \<or> u_improvement_suggestions body \<noteq> None \<or> u_is_frozen body \<noteq> None
      \<or> u_freeze_reason body \<noteq> None \<or> u_freeze_start_date body \<noteq> None
      \<or> u_freeze_end_date body \<noteq> None)"

definition apply_updates :: "update_body \<Rightarrow> evaluation \<Rightarrow> evaluation" where
  "apply_updates body e =
     e\<lparr> e_human_note := (case u_human_note body of None \<Rightarrow> e_human_note e | Some x \<Rightarrow> x),
        e_praise_note := (case u_praise_note body of None \<Rightarrow> e_praise_note e | Some x \<Rightarrow> x),
        e_improvement_suggestions :=
          (case u_improvement_suggestions body of None \<Rightarrow> e_improvement_suggestions e | Some x \<Rightarrow> x),
        e_is_frozen := (case u_is_frozen body of None \<Rightarrow> e_is_frozen e | Some x \<Rightarrow> x),
        e_freeze_reason := (case u_freeze_reason body of None \<Rightarrow> e_freeze_reason e | Some x \<Rightarrow> x),
        e_freeze_start_date :=
          (case u_freeze_start_date body of None \<Rightarrow> e_freeze_start_date e | Some x \<Rightarrow> x),
        e_freeze_end_date :=
          (case u_freeze_end_date body of None \<Rightarrow> e_freeze_end_date e | Some x \<Rightarrow> x) \<rparr>"

text \<open>
  The block that replaces the details of evaluation \<open>i\<close>: it deletes the old rows, reads
  the volunteer's role, runs the loop and stores the totals. Reading \<open>rows[0].role_type\<close>
  throws when the volunteer row is gone.
\<close>

definition replace_details :: "uuid \<Rightarrow> uuid \<Rightarrow> criteriaScore list \<Rightarrow> db \<Rightarrow> error + db" where
  "replace_details i vid scores d =
     (let d1 = d\<lparr> evaluation_details :=
                    filter (\<lambda>x. ed_evaluation_id x \<noteq> i) (evaluation_details d) \<rparr> in
      case filter (\<lambda>v. v_id v = vid) (volunteers d1) of
        [] \<Rightarrow> Inl UPDATE_EVALUATION_ERROR
      | vol # _ \<Rightarrow>
          (let acc = score_loop (availableCriteria d1 (v_role_type vol)) i scores
                       \<lparr> totalScore = 0, maxPossibleScore = 0, details = evaluation_details d1 \<rparr>
           in Inr (d1\<lparr> evaluation_details := details acc,
                        evaluations := set_totals i acc (evaluations d1) \<rparr>)))"

text \<open>
  The transaction of the update handler; an exception rolls it back. The response carries
  the row read back at the end (\<open>None\<close> is \<open>undefined\<close>).
\<close>

definition update_transaction ::
  "uuid \<Rightarrow> update_body \<Rightarrow> evaluation \<Rightarrow> db \<Rightarrow> (error + evaluation option) \<times> db" where
  "update_transaction i body oldEvaluation d =
     (let d1 = (if has_updates body
                then d\<lparr> evaluations :=
                          map (\<lambda>e. if e_id e = i then apply_updates body e else e) (evaluations d) \<rparr>
                else d);
          r = (case u_criteria_scores body of
                 None \<Rightarrow> Inr d1
               | Some scores \<Rightarrow>
                   if length scores > 0
                   then replace_details i (e_volunteer_id oldEvaluation) scores d1
                   else Inr d1)
      in case r of
           Inl err \<Rightarrow> (Inl err, d)
         | Inr d2 \<Rightarrow> (Inr (find (\<lambda>e. e_id e = i) (evaluations d2)), d2))"

definition update_evaluation ::
  "request \<Rightarrow> uuid \<Rightarrow> update_body \<Rightarrow> db \<Rightarrow> (error + evaluation option) \<times> db" where
  "update_evaluation req i body d =
     (if validation_errors req \<noteq> [] then (Inl INVALID_DATA, d)
      else
        case filter (\<lambda>e. e_id e = i) (evaluations d) of
          [] \<Rightarrow> (Inl EVALUATION_NOT_FOUND, d)
        | oldEvaluation # _ \<Rightarrow>
            if user_role req \<noteq> ''admin'' \<and> e_evaluator_id oldEvaluation \<noteq> user_id req
            then (Inl UNAUTHORIZED_EDIT, d)
            else if e_status oldEvaluation = Approved \<and> user_role req \<noteq> ''admin''
            then (Inl EVALUATION_APPROVED, d)
            else update_transaction i body oldEvaluation d)"

section \<open>The automatic alert check (POST /api/alerts/check-automatic)\<close>

text \<open>
  Modelled from the spec: the default of the column \<open>is_resolved\<close> of \<open>alert_records\<close>. The
  table's schema is not in the route files, and the insert statements leave the column
  to the store. The spec has the rule engine emit alerts that stay open until someone
  resolves them.
\<close>

definition is_resolved_default :: bool where
  "is_resolved_default = False"

text \<open>
  The rows of the subquery under \<open>NOT EXISTS\<close>: \<open>SELECT 1 FROM alert_records ar WHERE
  ar.volunteer_id = ... AND ar.alert_type = ... AND ar.is_resolved = false\<close>.
\<close>

definition unresolved_alerts :: "db \<Rightarrow> uuid \<Rightarrow> alert_type \<Rightarrow> alert_record list" where
  "unresolved_alerts d vid t =
     filter (\<lambda>ar. ar_volunteer_id ar = vid \<and> ar_alert_type ar = t \<and> ar_is_resolved ar = False)
       (alert_records d)"

text \<open>
  The rows of \<open>evaluations\<close> that pass the \<open>WHERE\<close> of \<open>consecutive_weak\<close>; a comparison with
  a \<open>NULL\<close> percentage is not true.
\<close>

definition weak_rows :: "int \<Rightarrow> db \<Rightarrow> evaluation list" where
  "weak_rows current_year d =
     filter (\<lambda>e. (case e_percentage e of None \<Rightarrow> False | Some p \<Rightarrow> p < 60)
                 \<and> e_status e = Approved
                 \<and> e_evaluation_year e \<ge> current_year - 1) (evaluations d)"

text \<open>\<open>GROUP BY volunteer_id HAVING COUNT(*) >= 3\<close>: volunteer and \<open>weak_months\<close>.\<close>

definition consecutive_weak :: "int \<Rightarrow> db \<Rightarrow> (uuid \<times> nat) list" where
  "consecutive_weak current_year d =
     (let rows = weak_rows current_year d in
      filter (\<lambda>(vid, weak_months). weak_months \<ge> 3)
        (map (\<lambda>vid. (vid, length (filter (\<lambda>e. e_volunteer_id e = vid) rows)))
           (remdups (map e_volunteer_id rows))))"

text \<open>The join with \<open>volunteers\<close> and the \<open>NOT EXISTS\<close> filter.\<close>

definition weakPerformanceResult :: "int \<Rightarrow> db \<Rightarrow> (uuid \<times> nat) list" where
  "weakPerformanceResult current_year d =
     concat (map (\<lambda>(vid, weak_months).
                    map (\<lambda>v. (vid, weak_months)) (filter (\<lambda>v. v_id v = vid) (volunteers d)))
               (filter (\<lambda>(vid, weak_months). unresolved_alerts d vid weak_performance = [])
                  (consecutive_weak current_year d)))"

definition weak_alert :: "uuid \<times> nat \<Rightarrow> alert_record" where
  "weak_alert record =
     \<lparr> ar_volunteer_id = fst record,
       ar_alert_type = weak_performance,
       ar_trigger_condition =
         \<lparr> tc_type = ''consecutive_weak_performance'', tc_months = snd record, tc_threshold = 60 \<rparr>,
       ar_severity = high,
       ar_consecutive_months = snd record,
       ar_is_resolved = is_resolved_default \<rparr>"

text \<open>
  \<open>name_ar ILIKE '%pattern%'\<close> for a pattern of Arabic letters, which have no case: the
  name contains the pattern. The two patterns of the query, in UTF-8.
\<close>

definition ilike_contains :: "string \<Rightarrow> string \<Rightarrow> bool" where
  "ilike_contains name pattern = sublist pattern name"

definition pattern_interaction :: string where
  "pattern_interaction =
     [CHR 0xD8, CHR 0xAA, CHR 0xD9, CHR 0x81, CHR 0xD8, CHR 0xA7, CHR 0xD8, CHR 0xB9, CHR 0xD9, CHR 0x84]"

definition pattern_group :: string where
  "pattern_group = [CHR 0xD8, CHR 0xAC, CHR 0xD8, CHR 0xB1, CHR 0xD9, CHR 0x88, CHR 0xD8, CHR 0xA8]"

text \<open>
  The \<open>WHERE\<close> of \<open>last_two_months\<close> as SQL reads it: \<open>AND\<close> binds tighter than \<open>OR\<close>, so
  the first \<open>ILIKE\<close> stands alone and the second one is joined with all the conditions
  that follow.
\<close>

definition no_interaction_where ::
  "int \<Rightarrow> int \<Rightarrow> evaluation \<Rightarrow> evaluation_detail \<Rightarrow> criterion \<Rightarrow> bool" where
  "no_interaction_where current_year current_month e ed ec =
     (ilike_contains (ec_name_ar ec) pattern_interaction
      \<or> (ilike_contains (ec_name_ar ec) pattern_group
         \<and> (case ed_score_value ed of None \<Rightarrow> True | Some s \<Rightarrow> s < 3)
         \<and> e_status e = Approved
         \<and> e_evaluation_year e = current_year
         \<and> e_evaluation_month e \<ge> current_month - 2
         \<and> e_is_frozen e = False))"

text \<open>
  The joined rows that pass the \<open>WHERE\<close>, each reduced to its grouping key
  \<open>(e.volunteer_id, v.full_name)\<close>.
\<close>

definition no_interaction_rows :: "int \<Rightarrow> int \<Rightarrow> db \<Rightarrow> (uuid \<times> string) list" where
  "no_interaction_rows current_year current_month d =
     [(e_volunteer_id e, v_full_name v).
        e \<leftarrow> evaluations d,
        ed \<leftarrow> evaluation_details d, ed_evaluation_id ed = e_id e,
        ec \<leftarrow> evaluation_criteria d, ec_id ec = ed_criteria_id ed,
        v \<leftarrow> volunteers d, v_id v = e_volunteer_id e,
        no_interaction_where current_year current_month e ed ec]"

text \<open>\<open>GROUP BY e.volunteer_id, v.full_name HAVING COUNT(*) >= 2\<close>.\<close>

definition last_two_months :: "int \<Rightarrow> int \<Rightarrow> db \<Rightarrow> (uuid \<times> nat) list" where
  "last_two_months current_year current_month d =
     (let rows = no_interaction_rows current_year current_month d in
      filter (\<lambda>(vid, no_interaction_count). no_interaction_count \<ge> 2)
        (map (\<lambda>k. (fst k, length (filter (\<lambda>r. r = k) rows))) (remdups rows)))"

definition noInteractionResult :: "int \<Rightarrow> int \<Rightarrow> db \<Rightarrow> (uuid \<times> nat) list" where
  "noInteractionResult current_year current_month d =
     filter (\<lambda>(vid, no_interaction_count). unresolved_alerts d vid no_interaction = [])
       (last_two_months current_year current_month d)"

definition no_interaction_alert :: "uuid \<times> nat \<Rightarrow> alert_record" where
  "no_interaction_alert record =
     \<lparr> ar_volunteer_id = fst record,
       ar_alert_type = no_interaction,
       ar_trigger_condition =
         \<lparr> tc_type = ''no_group_interaction'', tc_months = snd record, tc_threshold = 3 \<rparr>,
       ar_severity = medium,
       ar_consecutive_months = snd record,
       ar_is_resolved = is_resolved_default \<rparr>"

text \<open>
  The handler, for the year and month of \<open>CURRENT_DATE\<close>: the list \<open>newAlerts\<close> of the
  response and the store after the request. The second query runs after the inserts of
  the first loop.
\<close>

definition check_automatic :: "int \<Rightarrow> int \<Rightarrow> db \<Rightarrow> alert_record list \<times> db" where
  "check_automatic current_year current_month d =
     (let weak = map weak_alert (weakPerformanceResult current_year d);
          d1 = d\<lparr> alert_records := alert_records d @ weak \<rparr>;
          silent = map no_interaction_alert (noInteractionResult current_year current_month d1);
          d2 = d1\<lparr> alert_records := alert_records d1 @ silent \<rparr>
      in (weak @ silent, d2))"

section \<open>Consistency of a volunteer's scores (comparison report)\<close>






section \<open>The spec's notions the claims are stated with\<close>

text \<open>
  Following the spec's words: \<open>round2\<close>, rounding to 2 decimal places (to the nearest
  hundredth, a tie going up).
\<close>

definition round2 :: "real \<Rightarrow> real" where
  "round2 x = of_int (round (x * 100)) / 100"

text \<open>
  Following the spec's words, with the arithmetic of doubles: \<open>round2\<close> as the expression
  \<open>Math.round(x * 100) / 100\<close>.
\<close>

definition round2_double :: "real \<Rightarrow> real" where
  "round2_double x = rd (Math_round (rd (x * 100)) / 100)"

text \<open>
  Following the spec's words, with the arithmetic of doubles: the stored percentage of an
  evaluation is \<open>round2(totalScore / maxPossibleScore * 100)\<close> when \<open>maxPossibleScore > 0\<close>,
  and 0 otherwise.
\<close>

definition percentage_consistent :: "evaluation \<Rightarrow> bool" where
  "percentage_consistent e =
     (case (e_total_score e, e_max_possible_score e, e_percentage e) of
        (Some t, Some m, Some p) \<Rightarrow>
          (0 < m \<longrightarrow> p = round2_double (rd (rd (t / m) * 100))) \<and> (\<not> 0 < m \<longrightarrow> p = 0)
      | _ \<Rightarrow> False)"






text \<open>
  The checks that the create handler makes before it counts the freeze records: the body
  is valid, the volunteer exists and is active, no evaluation is stored for the volunteer
  and the period, and the three freeze fields are present.
\<close>

definition reaches_freeze_check :: "request \<Rightarrow> create_body \<Rightarrow> db \<Rightarrow> bool" where
  "reaches_freeze_check req body d =
     (validation_errors req = []
      \<and> filter (\<lambda>v. v_id v = volunteer_id body \<and> v_is_active v) (volunteers d) \<noteq> []
      \<and> filter (\<lambda>e. e_volunteer_id e = volunteer_id body
                     \<and> e_evaluation_month e = evaluation_month body
                     \<and> e_evaluation_year e = evaluation_year body) (evaluations d) = []
      \<and> or_null (freeze_reason body) \<noteq> None
      \<and> or_null (freeze_start_date body) \<noteq> None
      \<and> or_null (freeze_end_date body) \<noteq> None)"

text \<open>
  The number of rows of \<open>consecutive_weak\<close> for one volunteer: the approved evaluations
  of the volunteer with a percentage below 60 and \<open>evaluation_year >= current year - 1\<close>.
\<close>

definition weak_count :: "int \<Rightarrow> db \<Rightarrow> uuid \<Rightarrow> nat" where
  "weak_count current_year d vid =
     length (filter (\<lambda>e. e_volunteer_id e = vid \<and> e_status e = Approved
                         \<and> e_evaluation_year e \<ge> current_year - 1
                         \<and> (case e_percentage e of None \<Rightarrow> False | Some p \<Rightarrow> p < 60))
               (evaluations d))"

text \<open>
  Following the spec's words: an evaluation lies within the trailing \<open>n\<close> months when its
  month is the current one or at most \<open>n\<close> months before it.
\<close>

definition within_trailing_months :: "int \<Rightarrow> int \<Rightarrow> int \<Rightarrow> evaluation \<Rightarrow> bool" where
  "within_trailing_months n current_year current_month e =
     (let age = (current_year * 12 + current_month)
                  - (e_evaluation_year e * 12 + e_evaluation_month e)
      in 0 \<le> age \<and> age \<le> n)"

text \<open>
  Following the spec's words: the count of a volunteer's approved evaluations within the
  trailing 12 months that have a percentage below 60.
\<close>

definition trailing_weak_count :: "int \<Rightarrow> int \<Rightarrow> db \<Rightarrow> uuid \<Rightarrow> nat" where
  "trailing_weak_count current_year current_month d vid =
     length (filter (\<lambda>e. e_volunteer_id e = vid \<and> e_status e = Approved
                         \<and> within_trailing_months 12 current_year current_month e
                         \<and> (case e_percentage e of None \<Rightarrow> False | Some p \<Rightarrow> p < 60))
               (evaluations d))"

text \<open>
  Following the spec's words: a joined row counts toward a \<open>no_interaction\<close> alert only when
  the evaluation is approved, not frozen and within the trailing 2 months, the criterion is
  labeled as an interaction criterion, and the score is null or below 3.
\<close>

definition qualifies_no_interaction ::
  "int \<Rightarrow> int \<Rightarrow> evaluation \<Rightarrow> evaluation_detail \<Rightarrow> criterion \<Rightarrow> bool" where
  "qualifies_no_interaction current_year current_month e ed ec =
     (e_status e = Approved \<and> e_is_frozen e = False
      \<and> within_trailing_months 2 current_year current_month e
      \<and> (ilike_contains (ec_name_ar ec) pattern_interaction
          \<or> ilike_contains (ec_name_ar ec) pattern_group)
      \<and> (case ed_score_value ed of None \<Rightarrow> True | Some s \<Rightarrow> s < 3))"

text \<open>
  The key \<open>(volunteer_id, alert_type)\<close> of an alert, and the keys of the unresolved alerts
  of the store; the spec's invariant is that no key occurs twice among them.
\<close>

definition alert_key :: "alert_record \<Rightarrow> uuid \<times> alert_type" where
  "alert_key ar = (ar_volunteer_id ar, ar_alert_type ar)"

definition open_alert_keys :: "db \<Rightarrow> (uuid \<times> alert_type) list" where
  "open_alert_keys d = map alert_key (filter (\<lambda>ar. ar_is_resolved ar = False) (alert_records d))"

section \<open>Example data\<close>

definition ex_numeric :: criterion where
  "ex_numeric =
     \<lparr> ec_id = ''c1'', ec_name_ar = ''attendance'', ec_data_type = Numeric, ec_max_score = 10,
       ec_weight = AsNumber 2, ec_choices = None, ec_applies_to_role = ''all'', ec_is_active = True \<rparr>"

definition ex_choice :: criterion where
  "ex_choice =
     \<lparr> ec_id = ''c2'', ec_name_ar = ''quality'', ec_data_type = Choice, ec_max_score = 10,
       ec_weight = AsNumber 1, ec_choices = Some [''poor'' \<mapsto> 0, ''excellent'' \<mapsto> 10],
       ec_applies_to_role = ''all'', ec_is_active = True \<rparr>"

definition ex_inactive :: criterion where
  "ex_inactive =
     \<lparr> ec_id = ''c3'', ec_name_ar = ''retired'', ec_data_type = Numeric, ec_max_score = 10,
       ec_weight = AsNumber 1, ec_choices = None, ec_applies_to_role = ''all'', ec_is_active = False \<rparr>"

definition ex_entry :: "uuid \<Rightarrow> jsval \<Rightarrow> string option \<Rightarrow> criteriaScore" where
  "ex_entry cid sv cv =
     \<lparr> criteria_id = cid, score_value = sv, text_value = None, choice_value = cv,
       boolean_value = JUndefined, notes_value = None \<rparr>"

definition ex_acc :: accumulation where
  "ex_acc = \<lparr> totalScore = 0, maxPossibleScore = 0, details = [] \<rparr>"

definition ex_volunteer :: volunteer where
  "ex_volunteer = \<lparr> v_id = ''v1'', v_full_name = ''Amal'', v_role_type = ''field'', v_is_active = True \<rparr>"

definition ex_db :: db where
  "ex_db =
     \<lparr> volunteers = [ex_volunteer], evaluations = [], evaluation_details = [],
       evaluation_criteria = [ex_numeric, ex_choice, ex_inactive], freeze_records = [],
       alert_records = [] \<rparr>"

definition ex_request :: request where
  "ex_request = \<lparr> validation_errors = [], user_id = ''u1'', user_role = ''evaluator'' \<rparr>"

definition ex_body :: create_body where
  "ex_body =
     \<lparr> volunteer_id = ''v1'', evaluation_month = 10, evaluation_year = 2026,
       criteria_scores = [ex_entry ''c1'' (JNum (Finite 5)) None],
       human_note = None, praise_note = None, improvement_suggestions = None,
       is_frozen = False, freeze_reason = None, freeze_start_date = None,
       freeze_end_date = None \<rparr>"

definition ex_freeze :: "int \<Rightarrow> freeze_record" where
  "ex_freeze m =
     \<lparr> fr_volunteer_id = ''v1'', fr_freeze_year = 2026, fr_start_date = Some ''2026-01-01'',
       fr_end_date = Some ''2026-01-31'', fr_reason = Some ''travel'', fr_evaluation_month = m,
       fr_evaluation_year = 2026, fr_approved_by = ''u1'', fr_is_active = True \<rparr>"

definition ex_frozen_body :: "string option \<Rightarrow> create_body" where
  "ex_frozen_body reason =
     \<lparr> volunteer_id = ''v1'', evaluation_month = 10, evaluation_year = 2026,
       criteria_scores = [],
       human_note = None, praise_note = None, improvement_suggestions = None,
       is_frozen = True, freeze_reason = reason, freeze_start_date = Some ''2026-10-01'',
       freeze_end_date = Some ''2026-10-31'' \<rparr>"

definition ex_stored :: evaluation where
  "ex_stored =
     \<lparr> e_id = ''e0'', e_volunteer_id = ''v1'', e_evaluator_id = ''u1'', e_evaluation_month = 9,
       e_evaluation_year = 2026, e_is_frozen = False, e_freeze_reason = None,
       e_freeze_start_date = None, e_freeze_end_date = None, e_human_note = None,
       e_praise_note = None, e_improvement_suggestions = None, e_status = Draft,
       e_total_score = None, e_max_possible_score = None, e_percentage = None \<rparr>"

definition ex_update :: update_body where
  "ex_update =
     \<lparr> u_criteria_scores = Some [ex_entry ''c1'' (JNum (Finite 5)) None],
       u_human_note = None, u_praise_note = None, u_improvement_suggestions = None,
       u_is_frozen = None, u_freeze_reason = None, u_freeze_start_date = None,
       u_freeze_end_date = None \<rparr>"

definition ex_evaluation :: "uuid \<Rightarrow> int \<Rightarrow> int \<Rightarrow> status \<Rightarrow> bool \<Rightarrow> real \<Rightarrow> evaluation" where
  "ex_evaluation i y m st frozen p =
     \<lparr> e_id = i, e_volunteer_id = ''v1'', e_evaluator_id = ''u1'', e_evaluation_month = m,
       e_evaluation_year = y, e_is_frozen = frozen, e_freeze_reason = None,
       e_freeze_start_date = None, e_freeze_end_date = None, e_human_note = None,
       e_praise_note = None, e_improvement_suggestions = None, e_status = st,
       e_total_score = Some p, e_max_possible_score = Some 100, e_percentage = Some p \<rparr>"

definition ex_detail :: "uuid \<Rightarrow> uuid \<Rightarrow> real option \<Rightarrow> evaluation_detail" where
  "ex_detail i cid s =
     \<lparr> ed_evaluation_id = i, ed_criteria_id = cid, ed_score_value = s, ed_text_value = None,
       ed_choice_value = None, ed_boolean_value = None, ed_notes = None, ed_weight_used = AsNumber 1 \<rparr>"

definition ex_interaction :: criterion where
  "ex_interaction =
     \<lparr> ec_id = ''c4'', ec_name_ar = pattern_interaction, ec_data_type = Numeric, ec_max_score = 10,
       ec_weight = AsNumber 1, ec_choices = None, ec_applies_to_role = ''all'', ec_is_active = True \<rparr>"

text \<open>Three approved evaluations of January to March 2025, at 50, 55 and 58 percent.\<close>

definition ex_weak_db :: db where
  "ex_weak_db =
     \<lparr> volunteers = [ex_volunteer],
       evaluations = [ex_evaluation ''e1'' 2025 1 Approved False 50,
                      ex_evaluation ''e2'' 2025 2 Approved False 55,
                      ex_evaluation ''e3'' 2025 3 Approved False 58],
       evaluation_details = [], evaluation_criteria = [ex_numeric], freeze_records = [],
       alert_records = [] \<rparr>"

text \<open>
  Two draft, frozen evaluations of January and February 2020, each with the full score 10
  on a criterion whose name is the first pattern of the query.
\<close>

definition ex_draft_db :: db where
  "ex_draft_db =
     \<lparr> volunteers = [ex_volunteer],
       evaluations = [ex_evaluation ''e1'' 2020 1 Draft True 90,
                      ex_evaluation ''e2'' 2020 2 Draft True 90],
       evaluation_details = [ex_detail ''e1'' ''c4'' (Some 10), ex_detail ''e2'' ''c4'' (Some 10)],
       evaluation_criteria = [ex_interaction], freeze_records = [],
       alert_records = [] \<rparr>"

text \<open>A criterion with the maximum 160 and a create request that scores 23 on it.\<close>

definition ex_wide :: criterion where
  "ex_wide =
     \<lparr> ec_id = ''c5'', ec_name_ar = ''hours'', ec_data_type = Numeric, ec_max_score = 160,
       ec_weight = AsNumber 1, ec_choices = None, ec_applies_to_role = ''all'', ec_is_active = True \<rparr>"

definition ex_wide_body :: create_body where
  "ex_wide_body =
     \<lparr> volunteer_id = ''v1'', evaluation_month = 10, evaluation_year = 2026,
       criteria_scores = [ex_entry ''c5'' (JNum (Finite 23)) None],
       human_note = None, praise_note = None, improvement_suggestions = None,
       is_frozen = False, freeze_reason = None, freeze_start_date = None,
       freeze_end_date = None \<rparr>"

section \<open>Evaluation of the examples\<close>

lemma ulp_exponent_numeral:
  "ulp_exponent (numeral k) x e =
     (if 2 ^ 53 \<le> x then ulp_exponent (pred_numeral k) (x / 2) (e + 1)
      else if x < 2 ^ 52 \<and> - 1074 < e then ulp_exponent (pred_numeral k) (x * 2) (e - 1)
      else e)"
  by (simp add: numeral_eq_Suc)

lemmas rd_eval = rd_def double_def ulp_exponent_numeral round_ties_even_def Let_def

lemmas parse_defs = StrDecimalLiteral_def StrDecimalLiteral_prefix_def take_sign_def is_digit_def
  digits_val_def ExponentPart_def StrWhiteSpaceChar_def TrimLeft_def TrimRight_def
  StringToNumber_def radix_literal_def digit_value_def

lemmas ex_defs = ex_request_def ex_body_def ex_db_def ex_volunteer_def ex_numeric_def ex_choice_def
  ex_inactive_def ex_entry_def

lemmas handler_defs = create_evaluation_def create_transaction_def availableCriteria_def
  set_totals_def weightedScore_def maxWeightedScore_def weight_factor_def accumulate_def
  finalScore_def detail_row_def or_null_def or_default_def freezeCount_def

lemmas ex_alert_defs = ex_weak_db_def ex_draft_db_def ex_evaluation_def ex_volunteer_def ex_detail_def
  ex_interaction_def ex_numeric_def

section \<open>Doubles\<close>

lemma rd_0 [simp]: "rd 0 = 0"
  by (simp add: rd_def)

text \<open>
  The doubles of the examples: small integers are doubles, \<open>0.8\<close> and \<open>14.37\<close> are not, and
  \<open>23 / 160 * 100 * 100\<close> stays below \<open>1437.5\<close> in doubles.
\<close>

lemma rd_examples:
  "rd 5 = 5" "rd 10 = 10" "rd 20 = 20" "rd 23 = 23" "rd 40 = 40" "rd 50 = 50" "rd 160 = 160"
  "rd 5000 = 5000" "rd (1 / 2) = 1 / 2"
  by (simp_all add: rd_eval)

lemma rd_four_fifths: "rd (4 / 5) = 3602879701896397 / 4503599627370496"
  by (simp add: rd_eval)

lemma rd_default_choice: "rd (10 * rd (4 / 5)) = 8"
  by (simp add: rd_four_fifths) (simp add: rd_eval)

lemma rd_1437: "rd (1437 / 100) = 8089590830664253 / 562949953421312"
  by (simp add: rd_eval)

lemma rd_quotient: "rd (23 / 160) = 2589569785738035 / 18014398509481984"
  by (simp add: rd_eval)

lemma rd_percent: "rd (rd (23 / 160) * 100) = 8092405580431359 / 562949953421312"
  by (simp add: rd_quotient) (simp add: rd_eval)

lemma rd_basis_points: "rd (rd (rd (23 / 160) * 100) * 100) = 6322191859711999 / 4398046511104"
  by (simp add: rd_percent) (simp add: rd_eval)

lemma percentage_of_examples:
  "percentage_of 10 20 = 50" "percentage_of 20 40 = 50" "percentage_of 0 20 = 0"
  "percentage_of 23 160 = rd (1437 / 100)"
     apply (simp_all add: percentage_of_def rd_examples)
     apply (simp_all add: rd_examples Math_round_def rd_basis_points)
  done

section \<open>Score resolution\<close>

lemma clamp_score_bounds: "0 \<le> m \<Longrightarrow> 0 \<le> clamp_score x m \<and> clamp_score x m \<le> m"
  by (cases x) auto

text \<open>
  Claim C3. For a criterion of data type numeric (with \<open>max_score\<close> not negative, as the
  data model has it) and every raw input, the resolved score lies within \<open>[0, max_score]\<close>:
  it is the parsed number clamped to that range, and it is 0 when the input does not parse
  to a number or is missing (\<open>undefined\<close> or \<open>null\<close>).
\<close>

theorem finalScore_numeric_in_range:
  assumes "ec_data_type c = Numeric" and "0 \<le> ec_max_score c"
  shows "0 \<le> finalScore c cs \<and> finalScore c cs \<le> ec_max_score c
    \<and> (score_value cs \<noteq> JUndefined \<and> score_value cs \<noteq> JNull
         \<longrightarrow> (\<forall>r. parseFloat (score_value cs) = Finite r
                   \<longrightarrow> finalScore c cs = max 0 (min r (ec_max_score c)))
           \<and> (parseFloat (score_value cs) = PosInfinity \<longrightarrow> finalScore c cs = ec_max_score c)
           \<and> (parseFloat (score_value cs) = NegInfinity \<longrightarrow> finalScore c cs = 0))
    \<and> (parseFloat (score_value cs) = NaN \<or> score_value cs = JUndefined \<or> score_value cs = JNull
         \<longrightarrow> finalScore c cs = 0)"
  using assms clamp_score_bounds[of "ec_max_score c" "parseFloat (score_value cs)"]
  by (auto simp: finalScore_def)

text \<open>
  Claim C3, at concrete inputs: \<open>"12"\<close> is clamped to the maximum 10, \<open>"-3"\<close> to 0, and
  \<open>"abc"\<close> and \<open>null\<close> resolve to 0.
\<close>

theorem finalScore_numeric_in_range_witness:
  "finalScore ex_numeric (ex_entry ''c1'' (JStr ''12'') None) = 10
   \<and> finalScore ex_numeric (ex_entry ''c1'' (JStr ''-3'') None) = 0
   \<and> finalScore ex_numeric (ex_entry ''c1'' (JStr ''abc'') None) = 0
   \<and> finalScore ex_numeric (ex_entry ''c1'' JNull None) = 0"
proof -
  have t: "ec_data_type ex_numeric = Numeric" and m: "0 \<le> ec_max_score ex_numeric"
    by (simp_all add: ex_numeric_def)
  have p1: "parseFloat (JStr ''12'') = Finite 12" by (simp add: parse_defs rd_eval)
  have p2: "parseFloat (JStr ''-3'') = Finite (- 3)" by (simp add: parse_defs rd_eval)
  have p3: "parseFloat (JStr ''abc'') = NaN" by (simp add: parse_defs)
  show ?thesis
    using finalScore_numeric_in_range[OF t m, of "ex_entry ''c1'' (JStr ''12'') None"]
      finalScore_numeric_in_range[OF t m, of "ex_entry ''c1'' (JStr ''-3'') None"]
      finalScore_numeric_in_range[OF t m, of "ex_entry ''c1'' (JStr ''abc'') None"]
      finalScore_numeric_in_range[OF t m, of "ex_entry ''c1'' JNull None"]
      p1 p2 p3
    by (simp add: ex_entry_def ex_numeric_def)
qed

text \<open>
  Claim C4 says that a label that is a key of the choice-value table resolves to the
  table's value. The handlers write \<open>choices[choice_value] || max_score * 0.8\<close>, and a
  table value of 0 is falsy: for the table \<open>{"poor": 0, "excellent": 10}\<close> with
  \<open>max_score = 10\<close>, the label \<open>"poor"\<close> resolves to 8 and not to the table's 0.
\<close>

theorem finalScore_choice_zero_entry:
  "ec_data_type ex_choice = Choice
   \<and> the (ec_choices ex_choice) ''poor'' = Some 0
   \<and> finalScore ex_choice (ex_entry ''c2'' JUndefined (Some ''poor'')) = 8"
  by (simp add: finalScore_def ex_choice_def ex_entry_def or_null_def or_default_def
      rd_default_choice)

text \<open>
  What the choice branch computes in general: the table's value when it is not 0, and
  \<open>max_score * 0.8\<close>, a product of doubles, when the label is absent or its value is 0.
\<close>

lemma finalScore_choice_lookup:
  assumes "ec_data_type c = Choice" and "choice_value cs = Some label" and "label \<noteq> []"
  shows "finalScore c cs =
     (case (case ec_choices c of None \<Rightarrow> Map.empty | Some t \<Rightarrow> t) label of
        None \<Rightarrow> rd (ec_max_score c * rd (8 / 10))
      | Some v \<Rightarrow> if v = 0 then rd (ec_max_score c * rd (8 / 10)) else v)"
  using assms by (simp add: finalScore_def or_null_def or_default_def split: option.splits)

text \<open>
  The weight factor: a weight of 0 counts as 1 when the column arrives as a number, and
  as 0 when it arrives as a string.
\<close>

lemma weight_factor_zero:
  "ec_weight c = AsNumber 0 \<Longrightarrow> weight_factor c = 1"
  "ec_weight c = AsString 0 \<Longrightarrow> weight_factor c = 0"
  "ec_weight c = SqlNull \<Longrightarrow> weight_factor c = 1"
  by (simp_all add: weight_factor_def or_default_def)

section \<open>The aggregation loop\<close>

lemma score_loop_append:
  "score_loop av i (xs @ ys) acc = score_loop av i ys (score_loop av i xs acc)"
  by (induction xs arbitrary: acc) (auto split: option.splits)

text \<open>
  The loop as three folds over the batch: a detail row for every entry whose criterion is
  found, and the two sums taken in the order of the batch.
\<close>

lemma score_loop_details:
  "details (score_loop av i xs acc) =
     details acc @ concat (map (\<lambda>m. case find (\<lambda>c. ec_id c = criteria_id m) av of
                                     None \<Rightarrow> [] | Some c \<Rightarrow> [detail_row i c m]) xs)"
  by (induction xs arbitrary: acc) (auto simp: accumulate_def split: option.splits)

lemma score_loop_totalScore:
  "totalScore (score_loop av i xs acc) =
     foldl (\<lambda>t m. case find (\<lambda>c. ec_id c = criteria_id m) av of
                    None \<Rightarrow> t | Some c \<Rightarrow> rd (t + weightedScore c m)) (totalScore acc) xs"
  by (induction xs arbitrary: acc) (auto simp: accumulate_def split: option.splits)

lemma score_loop_maxPossibleScore:
  "maxPossibleScore (score_loop av i xs acc) =
     foldl (\<lambda>t m. case find (\<lambda>c. ec_id c = criteria_id m) av of
                    None \<Rightarrow> t | Some c \<Rightarrow> rd (t + maxWeightedScore c)) (maxPossibleScore acc) xs"
  by (induction xs arbitrary: acc) (auto simp: accumulate_def split: option.splits)

text \<open>
  The criterion that the loop finds for an id is the first row of \<open>evaluation_criteria\<close>
  with that id that is active and applies to the role or to all.
\<close>

lemma find_filter: "find P (filter Q xs) = find (\<lambda>x. Q x \<and> P x) xs"
  by (induction xs) auto

lemma find_availableCriteria:
  "find (\<lambda>c. ec_id c = k) (availableCriteria d role) =
     find (\<lambda>c. (ec_is_active c \<and> (ec_applies_to_role c = role \<or> ec_applies_to_role c = ''all''))
                \<and> ec_id c = k) (evaluation_criteria d)"
  by (simp add: availableCriteria_def find_filter)

lemma create_transaction_totals:
  "e_total_score (fst (create_transaction req body new_id vol d))
     = Some (totalScore (score_loop (availableCriteria d (v_role_type vol)) new_id (criteria_scores body)
               \<lparr> totalScore = 0, maxPossibleScore = 0, details = evaluation_details d \<rparr>))"
  "e_max_possible_score (fst (create_transaction req body new_id vol d))
     = Some (maxPossibleScore (score_loop (availableCriteria d (v_role_type vol)) new_id (criteria_scores body)
               \<lparr> totalScore = 0, maxPossibleScore = 0, details = evaluation_details d \<rparr>))"
  "e_percentage (fst (create_transaction req body new_id vol d))
     = Some (percentage_of
          (totalScore (score_loop (availableCriteria d (v_role_type vol)) new_id (criteria_scores body)
               \<lparr> totalScore = 0, maxPossibleScore = 0, details = evaluation_details d \<rparr>))
          (maxPossibleScore (score_loop (availableCriteria d (v_role_type vol)) new_id (criteria_scores body)
               \<lparr> totalScore = 0, maxPossibleScore = 0, details = evaluation_details d \<rparr>)))"
  by (simp_all add: create_transaction_def Let_def availableCriteria_def)

text \<open>
  Claim C2 says that of two entries with the same criterion id the later one wins. The
  loop has no such rule: both entries are resolved and added. For the numeric criterion
  with \<open>max_score = 10\<close> and \<open>weight = 2\<close>, the batch of the scores 10 and 0 gives the totals
  20 of 40 and 50 percent, while the batch of the later entry alone gives 0 of 20 and 0
  percent.
\<close>

theorem duplicate_entries_not_last_write_wins:
  "criteria_id (ex_entry ''c1'' (JNum (Finite 10)) None) = criteria_id (ex_entry ''c1'' (JNum (Finite 0)) None)
   \<and> totalScore (score_loop [ex_numeric] ''e1''
       [ex_entry ''c1'' (JNum (Finite 10)) None, ex_entry ''c1'' (JNum (Finite 0)) None] ex_acc) = 20
   \<and> totalScore (score_loop [ex_numeric] ''e1'' [ex_entry ''c1'' (JNum (Finite 0)) None] ex_acc) = 0
   \<and> maxPossibleScore (score_loop [ex_numeric] ''e1''
       [ex_entry ''c1'' (JNum (Finite 10)) None, ex_entry ''c1'' (JNum (Finite 0)) None] ex_acc) = 40
   \<and> maxPossibleScore (score_loop [ex_numeric] ''e1'' [ex_entry ''c1'' (JNum (Finite 0)) None] ex_acc) = 20
   \<and> percentage_of 20 40 = 50 \<and> percentage_of 0 20 = 0"
  by (simp add: ex_entry_def ex_numeric_def ex_acc_def accumulate_def weightedScore_def
      maxWeightedScore_def weight_factor_def finalScore_def or_default_def rd_examples
      percentage_of_examples)

text \<open>
  Claim C2, amended. For every batch that contains two entries with the same criterion id
  (of an available criterion), the loop runs its body on both, each at its place in the
  batch and on the state the entries before it have left. The body adds
  \<open>finalScore * parseFloat(weight || 1)\<close> to \<open>totalScore\<close> and
  \<open>parseFloat(max_score || 10) * parseFloat(weight || 1)\<close> to \<open>maxPossibleScore\<close>, every
  product and sum rounded to a double, and appends the entry's detail row; nothing is
  overwritten. The factor \<open>parseFloat(weight || 1)\<close> is 1 for a weight that is \<open>null\<close> or the
  number 0, and the weight's value otherwise. The create handler returns the sums of the whole batch and the percentage
  computed from them.
\<close>

theorem duplicate_entries_accumulate:
  assumes "find (\<lambda>c. ec_id c = criteria_id cs) av = Some c"
    and "criteria_id cs' = criteria_id cs"
  shows "score_loop av i (xs @ cs # ys @ cs' # zs) acc
           = score_loop av i zs
               (accumulate i c cs' (score_loop av i ys (accumulate i c cs (score_loop av i xs acc))))
       \<and> (\<forall>m a. totalScore (accumulate i c m a)
                   = rd (totalScore a + rd (finalScore c m * weight_factor c))
                \<and> maxPossibleScore (accumulate i c m a)
                   = rd (maxPossibleScore a + rd (or_default (ec_max_score c) 10 * weight_factor c))
                \<and> details (accumulate i c m a) = details a @ [detail_row i c m])
       \<and> weight_factor c = (case ec_weight c of
                              SqlNull \<Rightarrow> 1
                            | AsNumber w \<Rightarrow> if w = 0 then 1 else w
                            | AsString w \<Rightarrow> rd w)
       \<and> (av = availableCriteria d (v_role_type vol) \<and> i = new_id
            \<and> acc = \<lparr> totalScore = 0, maxPossibleScore = 0, details = evaluation_details d \<rparr>
            \<and> criteria_scores body = xs @ cs # ys @ cs' # zs \<longrightarrow>
          e_total_score (fst (create_transaction req body new_id vol d))
            = Some (totalScore (score_loop av i (xs @ cs # ys @ cs' # zs) acc))
          \<and> e_max_possible_score (fst (create_transaction req body new_id vol d))
            = Some (maxPossibleScore (score_loop av i (xs @ cs # ys @ cs' # zs) acc))
          \<and> e_percentage (fst (create_transaction req body new_id vol d))
            = Some (percentage_of (totalScore (score_loop av i (xs @ cs # ys @ cs' # zs) acc))
                      (maxPossibleScore (score_loop av i (xs @ cs # ys @ cs' # zs) acc))))"
proof (intro conjI allI impI)
  show "score_loop av i (xs @ cs # ys @ cs' # zs) acc
           = score_loop av i zs
               (accumulate i c cs' (score_loop av i ys (accumulate i c cs (score_loop av i xs acc))))"
    using assms by (simp add: score_loop_append)
next
  fix m a
  show "totalScore (accumulate i c m a) = rd (totalScore a + rd (finalScore c m * weight_factor c))"
    by (simp add: accumulate_def weightedScore_def)
  show "maxPossibleScore (accumulate i c m a)
          = rd (maxPossibleScore a + rd (or_default (ec_max_score c) 10 * weight_factor c))"
    by (simp add: accumulate_def maxWeightedScore_def)
  show "details (accumulate i c m a) = details a @ [detail_row i c m]"
    by (simp add: accumulate_def)
next
  show "weight_factor c = (case ec_weight c of
                              SqlNull \<Rightarrow> 1
                            | AsNumber w \<Rightarrow> if w = 0 then 1 else w
                            | AsString w \<Rightarrow> rd w)"
    by (simp add: weight_factor_def or_default_def split: column.splits)
next
  assume a: "av = availableCriteria d (v_role_type vol) \<and> i = new_id
            \<and> acc = \<lparr> totalScore = 0, maxPossibleScore = 0, details = evaluation_details d \<rparr>
            \<and> criteria_scores body = xs @ cs # ys @ cs' # zs"
  show "e_total_score (fst (create_transaction req body new_id vol d))
            = Some (totalScore (score_loop av i (xs @ cs # ys @ cs' # zs) acc))"
    using a create_transaction_totals(1)[of req body new_id vol d] by simp
  show "e_max_possible_score (fst (create_transaction req body new_id vol d))
            = Some (maxPossibleScore (score_loop av i (xs @ cs # ys @ cs' # zs) acc))"
    using a create_transaction_totals(2)[of req body new_id vol d] by simp
  show "e_percentage (fst (create_transaction req body new_id vol d))
            = Some (percentage_of (totalScore (score_loop av i (xs @ cs # ys @ cs' # zs) acc))
                      (maxPossibleScore (score_loop av i (xs @ cs # ys @ cs' # zs) acc)))"
    using a create_transaction_totals(3)[of req body new_id vol d] by simp
qed

text \<open>
  Claim C2, amended, at the create request with the scores 10 and 0 for the criterion with
  \<open>max_score = 10\<close> and \<open>weight = 2\<close>: two detail rows, 20 of 40, 50 percent.
\<close>

theorem duplicate_entries_accumulate_witness:
  "score_loop (availableCriteria ex_db ''field'') ''e1''
     [ex_entry ''c1'' (JNum (Finite 10)) None, ex_entry ''c1'' (JNum (Finite 0)) None] ex_acc
     = \<lparr> totalScore = 20, maxPossibleScore = 40,
         details = [detail_row ''e1'' ex_numeric (ex_entry ''c1'' (JNum (Finite 10)) None),
                    detail_row ''e1'' ex_numeric (ex_entry ''c1'' (JNum (Finite 0)) None)] \<rparr>
   \<and> e_total_score (fst (create_transaction ex_request
        (ex_body\<lparr> criteria_scores :=
           [ex_entry ''c1'' (JNum (Finite 10)) None, ex_entry ''c1'' (JNum (Finite 0)) None] \<rparr>)
        ''e1'' ex_volunteer ex_db)) = Some 20
   \<and> e_max_possible_score (fst (create_transaction ex_request
        (ex_body\<lparr> criteria_scores :=
           [ex_entry ''c1'' (JNum (Finite 10)) None, ex_entry ''c1'' (JNum (Finite 0)) None] \<rparr>)
        ''e1'' ex_volunteer ex_db)) = Some 40
   \<and> e_percentage (fst (create_transaction ex_request
        (ex_body\<lparr> criteria_scores :=
           [ex_entry ''c1'' (JNum (Finite 10)) None, ex_entry ''c1'' (JNum (Finite 0)) None] \<rparr>)
        ''e1'' ex_volunteer ex_db)) = Some 50"
proof -
  have f: "find (\<lambda>c. ec_id c = criteria_id (ex_entry ''c1'' (JNum (Finite 10)) None))
             (availableCriteria ex_db ''field'') = Some ex_numeric"
    by (simp add: availableCriteria_def ex_defs)
  have s: "criteria_id (ex_entry ''c1'' (JNum (Finite 0)) None)
             = criteria_id (ex_entry ''c1'' (JNum (Finite 10)) None)"
    by (simp add: ex_entry_def)
  have w: "finalScore ex_numeric (ex_entry ''c1'' (JNum (Finite 10)) None) = 10"
    "finalScore ex_numeric (ex_entry ''c1'' (JNum (Finite 0)) None) = 0"
    "weight_factor ex_numeric = 2" "or_default (ec_max_score ex_numeric) 10 = 10"
    by (simp_all add: finalScore_def weight_factor_def ex_entry_def ex_numeric_def or_default_def)
  have a: "accumulate ''e1'' ex_numeric (ex_entry ''c1'' (JNum (Finite 0)) None)
             (accumulate ''e1'' ex_numeric (ex_entry ''c1'' (JNum (Finite 10)) None) ex_acc)
           = \<lparr> totalScore = 20, maxPossibleScore = 40,
               details = [detail_row ''e1'' ex_numeric (ex_entry ''c1'' (JNum (Finite 10)) None),
                          detail_row ''e1'' ex_numeric (ex_entry ''c1'' (JNum (Finite 0)) None)] \<rparr>"
    by (simp add: accumulate_def weightedScore_def maxWeightedScore_def w ex_acc_def rd_examples)
  have b: "ex_acc = \<lparr> totalScore = 0, maxPossibleScore = 0, details = evaluation_details ex_db \<rparr>"
    "v_role_type ex_volunteer = ''field''"
    by (simp_all add: ex_acc_def ex_db_def ex_volunteer_def)
  show ?thesis
    using duplicate_entries_accumulate[OF f s, of "''e1''" "[]" "[]" "[]" ex_acc ex_db ex_volunteer
        "''e1''" "ex_body\<lparr> criteria_scores :=
           [ex_entry ''c1'' (JNum (Finite 10)) None, ex_entry ''c1'' (JNum (Finite 0)) None] \<rparr>"
        ex_request] a b
    by (simp add: percentage_of_examples)
qed

lemma score_loop_skip:
  "find (\<lambda>c. ec_id c = criteria_id cs) av = None \<Longrightarrow>
   score_loop av i (xs @ cs # ys) acc = score_loop av i (xs @ ys) acc"
  by (simp add: score_loop_append)

lemma availableCriteria_rows [simp]:
  "availableCriteria (d\<lparr> evaluations := es \<rparr>) role = availableCriteria d role"
  "availableCriteria (d\<lparr> evaluation_details := ds \<rparr>) role = availableCriteria d role"
  by (simp_all add: availableCriteria_def)

lemma create_transaction_skip:
  assumes "find (\<lambda>c. ec_id c = criteria_id cs) (availableCriteria d (v_role_type vol)) = None"
  shows "create_transaction req (body\<lparr> criteria_scores := xs @ cs # ys \<rparr>) new_id vol d
       = create_transaction req (body\<lparr> criteria_scores := xs @ ys \<rparr>) new_id vol d"
  by (simp add: create_transaction_def Let_def new_freeze_record_def score_loop_skip[OF assms])

lemma create_evaluation_skip:
  assumes "\<And>vol. vol \<in> set (volunteers d) \<Longrightarrow> v_id vol = volunteer_id body \<Longrightarrow>
             find (\<lambda>c. ec_id c = criteria_id cs) (availableCriteria d (v_role_type vol)) = None"
  shows "create_evaluation req (body\<lparr> criteria_scores := xs @ cs # ys \<rparr>) new_id d
       = create_evaluation req (body\<lparr> criteria_scores := xs @ ys \<rparr>) new_id d"
proof (cases "filter (\<lambda>v. v_id v = volunteer_id body \<and> v_is_active v) (volunteers d)")
  case Nil
  then show ?thesis by (simp add: create_evaluation_def)
next
  case (Cons vol rest)
  then have "vol \<in> set (filter (\<lambda>v. v_id v = volunteer_id body \<and> v_is_active v) (volunteers d))"
    by simp
  then have "find (\<lambda>c. ec_id c = criteria_id cs) (availableCriteria d (v_role_type vol)) = None"
    using assms by simp
  then show ?thesis
    using Cons by (auto simp: create_evaluation_def create_transaction_skip)
qed

lemma replace_details_skip:
  assumes "\<And>vol. vol \<in> set (volunteers d) \<Longrightarrow> v_id vol = vid \<Longrightarrow>
             find (\<lambda>c. ec_id c = criteria_id cs) (availableCriteria d (v_role_type vol)) = None"
  shows "replace_details i vid (xs @ cs # ys) d = replace_details i vid (xs @ ys) d"
proof (cases "filter (\<lambda>v. v_id v = vid) (volunteers d)")
  case Nil
  then show ?thesis by (simp add: replace_details_def)
next
  case (Cons vol rest)
  then have "vol \<in> set (filter (\<lambda>v. v_id v = vid) (volunteers d))" by simp
  then have "find (\<lambda>c. ec_id c = criteria_id cs) (availableCriteria d (v_role_type vol)) = None"
    using assms by simp
  then show ?thesis
    using Cons by (simp add: replace_details_def Let_def score_loop_skip)
qed

lemma ex_created:
  "create_evaluation ex_request ex_body ''e1'' ex_db =
     (Inr \<lparr> e_id = ''e1'', e_volunteer_id = ''v1'', e_evaluator_id = ''u1'', e_evaluation_month = 10,
       e_evaluation_year = 2026, e_is_frozen = False, e_freeze_reason = None,
       e_freeze_start_date = None, e_freeze_end_date = None, e_human_note = None,
       e_praise_note = None, e_improvement_suggestions = None, e_status = Draft,
       e_total_score = Some 10, e_max_possible_score = Some 20, e_percentage = Some 50 \<rparr>,
      ex_db\<lparr> evaluations :=
               [\<lparr> e_id = ''e1'', e_volunteer_id = ''v1'', e_evaluator_id = ''u1'', e_evaluation_month = 10,
                  e_evaluation_year = 2026, e_is_frozen = False, e_freeze_reason = None,
                  e_freeze_start_date = None, e_freeze_end_date = None, e_human_note = None,
                  e_praise_note = None, e_improvement_suggestions = None, e_status = Draft,
                  e_total_score = Some 10, e_max_possible_score = Some 20, e_percentage = Some 50 \<rparr>],
             evaluation_details := [detail_row ''e1'' ex_numeric (ex_entry ''c1'' (JNum (Finite 5)) None)] \<rparr>)"
  by (simp add: create_evaluation_def create_transaction_def availableCriteria_def set_totals_def
      weightedScore_def maxWeightedScore_def weight_factor_def accumulate_def finalScore_def
      or_null_def or_default_def freezeCount_def ex_defs Let_def rd_examples percentage_of_examples)

text \<open>
  Claim C9. A submitted score whose criterion id matches no criterion that is active and
  applies to the volunteer's role (or to \<open>all\<close>) is skipped, and no error is raised (the
  loop has no error result): the state that the entries before it have left is handed
  unchanged to the entries after it, so the entry adds no detail row and nothing to
  either sum. All other entries are processed: each of them whose id is that of an
  active, applicable criterion gets the first such criterion, its detail row in the order
  of the batch, and its weighted score and weighted maximum added to the sums. For a
  volunteer of that role, the create handler answers and leaves the store as for the batch
  without the entry, and so does the block of the update handler that replaces the
  details.
\<close>

theorem unknown_criterion_skipped:
  assumes "\<forall>c \<in> set (evaluation_criteria d). ec_id c = criteria_id cs \<longrightarrow>
             \<not> (ec_is_active c \<and> (ec_applies_to_role c = role \<or> ec_applies_to_role c = ''all''))"
  shows "score_loop (availableCriteria d role) i (xs @ cs # ys) acc
           = score_loop (availableCriteria d role) i ys (score_loop (availableCriteria d role) i xs acc)
       \<and> score_loop (availableCriteria d role) i (xs @ cs # ys) acc
           = score_loop (availableCriteria d role) i (xs @ ys) acc
       \<and> (\<forall>m. find (\<lambda>c. ec_id c = criteria_id m) (availableCriteria d role)
               = find (\<lambda>c. (ec_is_active c \<and> (ec_applies_to_role c = role \<or> ec_applies_to_role c = ''all''))
                            \<and> ec_id c = criteria_id m) (evaluation_criteria d))
       \<and> details (score_loop (availableCriteria d role) i (xs @ cs # ys) acc)
           = details acc
             @ concat (map (\<lambda>m. case find (\<lambda>c. ec_id c = criteria_id m) (availableCriteria d role) of
                                   None \<Rightarrow> [] | Some c \<Rightarrow> [detail_row i c m]) (xs @ ys))
       \<and> totalScore (score_loop (availableCriteria d role) i (xs @ cs # ys) acc)
           = foldl (\<lambda>t m. case find (\<lambda>c. ec_id c = criteria_id m) (availableCriteria d role) of
                            None \<Rightarrow> t
                          | Some c \<Rightarrow> rd (t + rd (finalScore c m * weight_factor c)))
               (totalScore acc) (xs @ ys)
       \<and> maxPossibleScore (score_loop (availableCriteria d role) i (xs @ cs # ys) acc)
           = foldl (\<lambda>t m. case find (\<lambda>c. ec_id c = criteria_id m) (availableCriteria d role) of
                            None \<Rightarrow> t
                          | Some c \<Rightarrow> rd (t + rd (or_default (ec_max_score c) 10 * weight_factor c)))
               (maxPossibleScore acc) (xs @ ys)
       \<and> ((\<forall>v \<in> set (volunteers d). v_id v = volunteer_id body \<longrightarrow> v_role_type v = role) \<longrightarrow>
            create_evaluation req (body\<lparr> criteria_scores := xs @ cs # ys \<rparr>) new_id d
              = create_evaluation req (body\<lparr> criteria_scores := xs @ ys \<rparr>) new_id d)
       \<and> ((\<forall>v \<in> set (volunteers d). v_id v = vid \<longrightarrow> v_role_type v = role) \<longrightarrow>
            replace_details i vid (xs @ cs # ys) d = replace_details i vid (xs @ ys) d)"
proof -
  have "find (\<lambda>c. ec_id c = criteria_id cs) (availableCriteria d role) = None"
    using assms by (auto simp: find_None_iff availableCriteria_def)
  then have none: "find (\<lambda>c. ec_id c = criteria_id cs) (availableCriteria d role) = None"
    and skip: "score_loop (availableCriteria d role) i (xs @ cs # ys) acc
           = score_loop (availableCriteria d role) i (xs @ ys) acc"
    by (simp_all add: score_loop_append)
  show ?thesis
    unfolding skip
  proof (intro conjI allI impI)
    assume "\<forall>v \<in> set (volunteers d). v_id v = volunteer_id body \<longrightarrow> v_role_type v = role"
    then show "create_evaluation req (body\<lparr> criteria_scores := xs @ cs # ys \<rparr>) new_id d
              = create_evaluation req (body\<lparr> criteria_scores := xs @ ys \<rparr>) new_id d"
      using none by (intro create_evaluation_skip) simp
  next
    assume "\<forall>v \<in> set (volunteers d). v_id v = vid \<longrightarrow> v_role_type v = role"
    then show "replace_details i vid (xs @ cs # ys) d = replace_details i vid (xs @ ys) d"
      using none by (intro replace_details_skip) simp
  next
    show "score_loop (availableCriteria d role) i (xs @ ys) acc
           = score_loop (availableCriteria d role) i ys (score_loop (availableCriteria d role) i xs acc)"
      by (rule score_loop_append)
    show "score_loop (availableCriteria d role) i (xs @ ys) acc
           = score_loop (availableCriteria d role) i (xs @ ys) acc"
      by (rule refl)
    show "find (\<lambda>c. ec_id c = criteria_id m) (availableCriteria d role)
               = find (\<lambda>c. (ec_is_active c \<and> (ec_applies_to_role c = role \<or> ec_applies_to_role c = ''all''))
                            \<and> ec_id c = criteria_id m) (evaluation_criteria d)" for m
      by (rule find_availableCriteria)
    show "details (score_loop (availableCriteria d role) i (xs @ ys) acc)
           = details acc
             @ concat (map (\<lambda>m. case find (\<lambda>c. ec_id c = criteria_id m) (availableCriteria d role) of
                                   None \<Rightarrow> [] | Some c \<Rightarrow> [detail_row i c m]) (xs @ ys))"
      by (rule score_loop_details)
    show "totalScore (score_loop (availableCriteria d role) i (xs @ ys) acc)
           = foldl (\<lambda>t m. case find (\<lambda>c. ec_id c = criteria_id m) (availableCriteria d role) of
                            None \<Rightarrow> t
                          | Some c \<Rightarrow> rd (t + rd (finalScore c m * weight_factor c)))
               (totalScore acc) (xs @ ys)"
      by (rule score_loop_totalScore[unfolded weightedScore_def])
    show "maxPossibleScore (score_loop (availableCriteria d role) i (xs @ ys) acc)
           = foldl (\<lambda>t m. case find (\<lambda>c. ec_id c = criteria_id m) (availableCriteria d role) of
                            None \<Rightarrow> t
                          | Some c \<Rightarrow> rd (t + rd (or_default (ec_max_score c) 10 * weight_factor c)))
               (maxPossibleScore acc) (xs @ ys)"
      by (rule score_loop_maxPossibleScore[unfolded maxWeightedScore_def])
  qed
qed

text \<open>
  Claim C9, at a batch with an entry for an inactive criterion and one for an id that
  does not exist, after the score 5 for the criterion with \<open>max_score = 10\<close> and
  \<open>weight = 2\<close>: the result is 10 of 20 and one detail row, and the create handler stores
  the evaluation with these totals, 50 percent, and that row.
\<close>

theorem unknown_criterion_skipped_witness:
  "score_loop (availableCriteria ex_db ''field'') ''e1''
     [ex_entry ''c1'' (JNum (Finite 5)) None, ex_entry ''c3'' (JNum (Finite 9)) None,
      ex_entry ''zz'' (JNum (Finite 9)) None] ex_acc
   = \<lparr> totalScore = 10, maxPossibleScore = 20,
       details = [detail_row ''e1'' ex_numeric (ex_entry ''c1'' (JNum (Finite 5)) None)] \<rparr>
   \<and> \<not> isl (fst (create_evaluation ex_request
        (ex_body\<lparr> criteria_scores :=
           [ex_entry ''c1'' (JNum (Finite 5)) None, ex_entry ''c3'' (JNum (Finite 9)) None,
            ex_entry ''zz'' (JNum (Finite 9)) None] \<rparr>) ''e1'' ex_db))
   \<and> map (\<lambda>e. (e_total_score e, e_max_possible_score e, e_percentage e))
        (evaluations (snd (create_evaluation ex_request
          (ex_body\<lparr> criteria_scores :=
             [ex_entry ''c1'' (JNum (Finite 5)) None, ex_entry ''c3'' (JNum (Finite 9)) None,
              ex_entry ''zz'' (JNum (Finite 9)) None] \<rparr>) ''e1'' ex_db)))
      = [(Some 10, Some 20, Some 50)]
   \<and> evaluation_details (snd (create_evaluation ex_request
        (ex_body\<lparr> criteria_scores :=
           [ex_entry ''c1'' (JNum (Finite 5)) None, ex_entry ''c3'' (JNum (Finite 9)) None,
            ex_entry ''zz'' (JNum (Finite 9)) None] \<rparr>) ''e1'' ex_db))
      = [detail_row ''e1'' ex_numeric (ex_entry ''c1'' (JNum (Finite 5)) None)]"
proof -
  have v: "\<forall>v \<in> set (volunteers ex_db). v_id v = volunteer_id ex_body \<longrightarrow> v_role_type v = ''field''"
    by (simp add: ex_db_def ex_volunteer_def)
  have e: "ex_body\<lparr> criteria_scores := [ex_entry ''c1'' (JNum (Finite 5)) None] \<rparr> = ex_body"
    by (simp add: ex_body_def)
  have a: "\<forall>c \<in> set (evaluation_criteria ex_db). ec_id c = criteria_id (ex_entry ''c3'' (JNum (Finite 9)) None) \<longrightarrow>
             \<not> (ec_is_active c \<and> (ec_applies_to_role c = ''field'' \<or> ec_applies_to_role c = ''all''))"
    by (simp add: ex_db_def ex_entry_def ex_numeric_def ex_choice_def ex_inactive_def)
  have b: "\<forall>c \<in> set (evaluation_criteria ex_db). ec_id c = criteria_id (ex_entry ''zz'' (JNum (Finite 9)) None) \<longrightarrow>
             \<not> (ec_is_active c \<and> (ec_applies_to_role c = ''field'' \<or> ec_applies_to_role c = ''all''))"
    by (simp add: ex_db_def ex_entry_def ex_numeric_def ex_choice_def ex_inactive_def)
  have f: "find (\<lambda>c. ec_id c = criteria_id (ex_entry ''c1'' (JNum (Finite 5)) None))
             (availableCriteria ex_db ''field'') = Some ex_numeric"
    by (simp add: availableCriteria_def ex_defs)
  have w: "finalScore ex_numeric (ex_entry ''c1'' (JNum (Finite 5)) None) = 5"
    "weight_factor ex_numeric = 2" "or_default (ec_max_score ex_numeric) 10 = 10"
    by (simp_all add: finalScore_def weight_factor_def ex_entry_def ex_numeric_def or_default_def)
  have one: "score_loop (availableCriteria ex_db ''field'') ''e1''
               [ex_entry ''c1'' (JNum (Finite 5)) None] ex_acc
             = \<lparr> totalScore = 10, maxPossibleScore = 20,
                 details = [detail_row ''e1'' ex_numeric (ex_entry ''c1'' (JNum (Finite 5)) None)] \<rparr>"
    by (simp add: f accumulate_def weightedScore_def maxWeightedScore_def w ex_acc_def rd_examples)
  have s1: "score_loop (availableCriteria ex_db ''field'') ''e1''
              [ex_entry ''c1'' (JNum (Finite 5)) None, ex_entry ''c3'' (JNum (Finite 9)) None,
               ex_entry ''zz'' (JNum (Finite 9)) None] ex_acc
            = score_loop (availableCriteria ex_db ''field'') ''e1''
              [ex_entry ''c1'' (JNum (Finite 5)) None, ex_entry ''zz'' (JNum (Finite 9)) None] ex_acc"
    using unknown_criterion_skipped[OF a, of "''e1''" "[ex_entry ''c1'' (JNum (Finite 5)) None]"
        "[ex_entry ''zz'' (JNum (Finite 9)) None]" ex_acc, THEN conjunct2, THEN conjunct1]
    by (simp only: append.simps)
  have s2: "score_loop (availableCriteria ex_db ''field'') ''e1''
              [ex_entry ''c1'' (JNum (Finite 5)) None, ex_entry ''zz'' (JNum (Finite 9)) None] ex_acc
            = score_loop (availableCriteria ex_db ''field'') ''e1''
              [ex_entry ''c1'' (JNum (Finite 5)) None] ex_acc"
    using unknown_criterion_skipped[OF b, of "''e1''" "[ex_entry ''c1'' (JNum (Finite 5)) None]" "[]"
        ex_acc, THEN conjunct2, THEN conjunct1]
    by (simp only: append.simps)
  have h1: "create_evaluation ex_request
              (ex_body\<lparr> criteria_scores :=
                 [ex_entry ''c1'' (JNum (Finite 5)) None, ex_entry ''c3'' (JNum (Finite 9)) None,
                  ex_entry ''zz'' (JNum (Finite 9)) None] \<rparr>) ''e1'' ex_db
            = create_evaluation ex_request
              (ex_body\<lparr> criteria_scores :=
                 [ex_entry ''c1'' (JNum (Finite 5)) None, ex_entry ''zz'' (JNum (Finite 9)) None] \<rparr>)
              ''e1'' ex_db"
    using unknown_criterion_skipped[OF a, where body = ex_body and req = ex_request
        and xs = "[ex_entry ''c1'' (JNum (Finite 5)) None]"
        and ys = "[ex_entry ''zz'' (JNum (Finite 9)) None]" and new_id = "''e1''",
        THEN conjunct2, THEN conjunct2, THEN conjunct2, THEN conjunct2, THEN conjunct2,
        THEN conjunct2, THEN conjunct1, THEN mp, OF v]
    by simp
  have h2: "create_evaluation ex_request
              (ex_body\<lparr> criteria_scores :=
                 [ex_entry ''c1'' (JNum (Finite 5)) None, ex_entry ''zz'' (JNum (Finite 9)) None] \<rparr>)
              ''e1'' ex_db
            = create_evaluation ex_request ex_body ''e1'' ex_db"
    using unknown_criterion_skipped[OF b, where body = ex_body and req = ex_request
        and xs = "[ex_entry ''c1'' (JNum (Finite 5)) None]" and ys = "[]" and new_id = "''e1''",
        THEN conjunct2, THEN conjunct2, THEN conjunct2, THEN conjunct2, THEN conjunct2,
        THEN conjunct2, THEN conjunct1, THEN mp, OF v] e
    by simp
  show ?thesis
    by (simp only: s1 s2 one h1 h2 ex_created) simp
qed

section \<open>The stored percentage\<close>

text \<open>
  The handlers' expression is \<open>round2\<close> in doubles of the quotient taken in doubles and
  multiplied by 100 in doubles.
\<close>

lemma percentage_of_round2_double:
  "(0 < m \<longrightarrow> percentage_of t m = round2_double (rd (rd (t / m) * 100)))
   \<and> (\<not> 0 < m \<longrightarrow> percentage_of t m = 0)"
  by (simp add: percentage_of_def round2_double_def)

lemma set_totals_consistent:
  assumes "e \<in> set (set_totals i acc rows)" and "e_id e = i"
  shows "percentage_consistent e"
proof -
  from assms(1) obtain e0 where e0: "e0 \<in> set rows"
    and e: "e = (if e_id e0 = i
               then e0\<lparr> e_total_score := Some (totalScore acc),
                       e_max_possible_score := Some (maxPossibleScore acc),
                       e_percentage := Some (percentage_of (totalScore acc) (maxPossibleScore acc)) \<rparr>
               else e0)"
    by (auto simp: set_totals_def)
  show ?thesis
  proof (cases "e_id e0 = i")
    case True
    with e show ?thesis
      using percentage_of_round2_double[of "maxPossibleScore acc" "totalScore acc"]
      by (simp add: percentage_consistent_def)
  next
    case False
    with e assms(2) show ?thesis by simp
  qed
qed

lemma set_totals_ids: "map e_id (set_totals i acc rows) = map e_id rows"
  by (simp add: set_totals_def)

lemma set_totals_id_image: "e_id ` set (set_totals i acc rows) = e_id ` set rows"
proof -
  have "set (map e_id (set_totals i acc rows)) = set (map e_id rows)"
    by (simp only: set_totals_ids)
  then show ?thesis by (simp only: set_map)
qed

lemma create_transaction_stored:
  "evaluations (snd (create_transaction req body new_id vol d)) =
     set_totals new_id
       (score_loop (availableCriteria (d\<lparr> evaluations := evaluations d @ [fst (create_transaction req body new_id vol d)\<lparr> e_percentage := None, e_total_score := None, e_max_possible_score := None \<rparr>] \<rparr>) (v_role_type vol)) new_id (criteria_scores body)
          \<lparr> totalScore = 0, maxPossibleScore = 0, details = evaluation_details d \<rparr>)
       (evaluations d @ [fst (create_transaction req body new_id vol d)\<lparr> e_percentage := None, e_total_score := None, e_max_possible_score := None \<rparr>])"
  by (simp add: create_transaction_def Let_def)

lemma create_transaction_id: "e_id (fst (create_transaction req body new_id vol d)) = new_id"
  by (simp add: create_transaction_def Let_def)

lemma create_transaction_returned:
  "percentage_consistent (fst (create_transaction req body new_id vol d))"
  using percentage_of_round2_double
  by (simp add: create_transaction_def Let_def percentage_consistent_def)

lemma create_evaluation_cases:
  "(isl (fst (create_evaluation req body new_id d)) \<and> snd (create_evaluation req body new_id d) = d)
   \<or> (\<exists>vol. create_evaluation req body new_id d =
         (Inr (fst (create_transaction req body new_id vol d)),
          snd (create_transaction req body new_id vol d)))"
  by (simp add: create_evaluation_def case_prod_beta split: list.splits) blast

lemma replace_details_stored:
  assumes "replace_details i vid scores d = Inr d2"
  shows "\<exists>acc. evaluations d2 = set_totals i acc (evaluations d)"
  using assms by (auto simp: replace_details_def Let_def split: list.splits)

lemma apply_updates_id: "e_id (apply_updates ubody e) = e_id e"
  by (simp add: apply_updates_def)

lemma apply_updates_id_image:
  "e_id ` set (map (\<lambda>e. if e_id e = i then apply_updates ubody e else e) rows) = e_id ` set rows"
proof -
  have "map e_id (map (\<lambda>e. if e_id e = i then apply_updates ubody e else e) rows) = map e_id rows"
    by (induction rows) (simp_all add: apply_updates_id)
  then have "set (map e_id (map (\<lambda>e. if e_id e = i then apply_updates ubody e else e) rows))
               = set (map e_id rows)"
    by (rule arg_cong)
  then show ?thesis by (simp only: set_map)
qed

lemma update_evaluation_cases:
  assumes "\<not> isl (fst (update_evaluation req i ubody d))"
    and "u_criteria_scores ubody = Some scores" and "scores \<noteq> []"
  shows "\<exists>acc rows. evaluations (snd (update_evaluation req i ubody d)) = set_totals i acc rows
           \<and> e_id ` set rows = e_id ` set (evaluations d) \<and> i \<in> e_id ` set (evaluations d)"
proof -
  from assms(1) obtain old rest where f: "filter (\<lambda>e. e_id e = i) (evaluations d) = old # rest"
    and u: "update_evaluation req i ubody d = update_transaction i ubody old d"
    by (auto simp: update_evaluation_def split: list.splits if_splits)
  from f have "old \<in> set (filter (\<lambda>e. e_id e = i) (evaluations d))" by simp
  then have mem: "i \<in> e_id ` set (evaluations d)" by auto
  let ?d1 = "(if has_updates ubody
                then d\<lparr> evaluations :=
                          map (\<lambda>e. if e_id e = i then apply_updates ubody e else e) (evaluations d) \<rparr>
                else d)"
  have ids: "e_id ` set (evaluations ?d1) = e_id ` set (evaluations d)"
    using apply_updates_id_image[of i ubody "evaluations d"] by simp
  from assms(1) u assms(2,3) obtain d2 where r: "replace_details i (e_volunteer_id old) scores ?d1 = Inr d2"
    and s: "snd (update_evaluation req i ubody d) = d2"
    by (auto simp: update_transaction_def Let_def split: sum.splits)
  from replace_details_stored[OF r] obtain acc where "evaluations d2 = set_totals i acc (evaluations ?d1)"
    by blast
  with s ids mem show ?thesis by blast
qed

lemma ex_wide_created:
  "fst (create_evaluation ex_request ex_wide_body ''e1'' (ex_db\<lparr> evaluation_criteria := [ex_wide] \<rparr>)) =
     Inr \<lparr> e_id = ''e1'', e_volunteer_id = ''v1'', e_evaluator_id = ''u1'', e_evaluation_month = 10,
       e_evaluation_year = 2026, e_is_frozen = False, e_freeze_reason = None,
       e_freeze_start_date = None, e_freeze_end_date = None, e_human_note = None,
       e_praise_note = None, e_improvement_suggestions = None, e_status = Draft,
       e_total_score = Some 23, e_max_possible_score = Some 160,
       e_percentage = Some (rd (1437 / 100)) \<rparr>"
  by (simp add: handler_defs ex_defs ex_wide_def ex_wide_body_def Let_def rd_examples
      percentage_of_examples)

text \<open>
  Claim C1 says that the stored percentage is \<open>totalScore / maxPossibleScore * 100\<close> rounded
  to 2 decimal places. The handlers compute in doubles: for the score 23 on a criterion
  with \<open>max_score = 160\<close> and \<open>weight = 1\<close> the create handler returns the totals 23 of 160
  and the percentage 14.37 (the double nearest to it), while \<open>23 / 160 * 100\<close> is 14.375 and
  rounds to 14.38. In doubles \<open>(23 / 160) * 100 * 100\<close> is below 1437.5.
\<close>

theorem stored_percentage_not_round2:
  "\<not> isl (fst (create_evaluation ex_request ex_wide_body ''e1'' (ex_db\<lparr> evaluation_criteria := [ex_wide] \<rparr>)))
   \<and> e_total_score (projr (fst (create_evaluation ex_request ex_wide_body ''e1''
        (ex_db\<lparr> evaluation_criteria := [ex_wide] \<rparr>)))) = Some 23
   \<and> e_max_possible_score (projr (fst (create_evaluation ex_request ex_wide_body ''e1''
        (ex_db\<lparr> evaluation_criteria := [ex_wide] \<rparr>)))) = Some 160
   \<and> e_percentage (projr (fst (create_evaluation ex_request ex_wide_body ''e1''
        (ex_db\<lparr> evaluation_criteria := [ex_wide] \<rparr>)))) = Some (rd (1437 / 100))
   \<and> round2 (23 / 160 * 100) = 1438 / 100
   \<and> rd (1437 / 100) < 1437 / 100 + 1 / 1000
   \<and> rd (rd (rd (23 / 160) * 100) * 100) < 1437 + 1 / 2"
proof -
  have r: "round2 (23 / 160 * 100) = 1438 / 100"
    by (simp add: round2_def round_def)
  show ?thesis
    using r by (simp add: ex_wide_created rd_1437 rd_basis_points)
qed

text \<open>
  Claim C1, amended. After a successful create, the returned evaluation and every stored
  row with the new id hold the percentage that \<open>round2\<close> gives in doubles,
  \<open>Math.round(x * 100) / 100\<close> for the double \<open>x = total_score / max_possible_score * 100\<close>
  with every operation rounded to the nearest double, when \<open>max_possible_score > 0\<close>, and
  0 otherwise; the same holds for the rows of the evaluation after a successful update
  that submits scores. Such a row exists in both cases.
\<close>

theorem stored_percentage_double:
  "(\<not> isl (fst (create_evaluation req body new_id d)) \<longrightarrow>
      percentage_consistent (projr (fst (create_evaluation req body new_id d)))
      \<and> (\<exists>e \<in> set (evaluations (snd (create_evaluation req body new_id d))). e_id e = new_id)
      \<and> (\<forall>e \<in> set (evaluations (snd (create_evaluation req body new_id d))).
            e_id e = new_id \<longrightarrow> percentage_consistent e))
   \<and> (\<not> isl (fst (update_evaluation ureq i ubody ud))
        \<and> u_criteria_scores ubody = Some scores \<and> scores \<noteq> [] \<longrightarrow>
      (\<exists>e \<in> set (evaluations (snd (update_evaluation ureq i ubody ud))). e_id e = i)
      \<and> (\<forall>e \<in> set (evaluations (snd (update_evaluation ureq i ubody ud))).
            e_id e = i \<longrightarrow> percentage_consistent e))"
proof (intro conjI impI)
  assume ok: "\<not> isl (fst (create_evaluation req body new_id d))"
  with create_evaluation_cases[of req body new_id d] obtain vol
    where c: "create_evaluation req body new_id d =
         (Inr (fst (create_transaction req body new_id vol d)),
          snd (create_transaction req body new_id vol d))"
    by blast
  show "percentage_consistent (projr (fst (create_evaluation req body new_id d)))"
    by (simp add: c create_transaction_returned)
  have st: "\<exists>acc row. evaluations (snd (create_evaluation req body new_id d))
              = set_totals new_id acc (evaluations d @ [row]) \<and> e_id row = new_id"
    unfolding c snd_conv
    by (subst create_transaction_stored) (intro exI conjI, rule refl, simp add: create_transaction_id)
  then obtain acc row where rows: "evaluations (snd (create_evaluation req body new_id d))
              = set_totals new_id acc (evaluations d @ [row])" and rid: "e_id row = new_id"
    by blast
  have "new_id \<in> e_id ` set (evaluations d @ [row])" using rid by auto
  then have "new_id \<in> e_id ` set (set_totals new_id acc (evaluations d @ [row]))"
    by (simp only: set_totals_id_image)
  then show "\<exists>e \<in> set (evaluations (snd (create_evaluation req body new_id d))). e_id e = new_id"
    unfolding rows by auto
  show "\<forall>e \<in> set (evaluations (snd (create_evaluation req body new_id d))).
            e_id e = new_id \<longrightarrow> percentage_consistent e"
    unfolding rows by (blast intro: set_totals_consistent)
next
  assume a: "\<not> isl (fst (update_evaluation ureq i ubody ud))
        \<and> u_criteria_scores ubody = Some scores \<and> scores \<noteq> []"
  with update_evaluation_cases[of ureq i ubody ud scores] obtain acc rows
    where rows: "evaluations (snd (update_evaluation ureq i ubody ud)) = set_totals i acc rows"
      and ids: "e_id ` set rows = e_id ` set (evaluations ud)" and mem: "i \<in> e_id ` set (evaluations ud)"
    by blast
  from ids mem have "i \<in> e_id ` set (set_totals i acc rows)"
    by (simp only: set_totals_id_image)
  then show "\<exists>e \<in> set (evaluations (snd (update_evaluation ureq i ubody ud))). e_id e = i"
    unfolding rows by auto
  show "\<forall>e \<in> set (evaluations (snd (update_evaluation ureq i ubody ud))).
            e_id e = i \<longrightarrow> percentage_consistent e"
    unfolding rows by (blast intro: set_totals_consistent)
qed

text \<open>
  Claim C1, amended, at a create and an update that submit the score 5 for the criterion
  with \<open>max_score = 10\<close> and \<open>weight = 2\<close>: 10 of 20, 50 percent; and at the create that
  submits 23 for the criterion with \<open>max_score = 160\<close>: 14.37 percent.
\<close>

theorem stored_percentage_double_witness:
  "\<not> isl (fst (create_evaluation ex_request ex_body ''e1'' ex_db))
   \<and> e_total_score (projr (fst (create_evaluation ex_request ex_body ''e1'' ex_db))) = Some 10
   \<and> e_max_possible_score (projr (fst (create_evaluation ex_request ex_body ''e1'' ex_db))) = Some 20
   \<and> e_percentage (projr (fst (create_evaluation ex_request ex_body ''e1'' ex_db))) = Some 50
   \<and> percentage_consistent (projr (fst (create_evaluation ex_request ex_body ''e1'' ex_db)))
   \<and> \<not> isl (fst (update_evaluation ex_request ''e0'' ex_update (ex_db\<lparr> evaluations := [ex_stored] \<rparr>)))
   \<and> map e_percentage
        (evaluations (snd (update_evaluation ex_request ''e0'' ex_update (ex_db\<lparr> evaluations := [ex_stored] \<rparr>))))
      = [Some 50]
   \<and> list_all percentage_consistent
        (evaluations (snd (update_evaluation ex_request ''e0'' ex_update (ex_db\<lparr> evaluations := [ex_stored] \<rparr>))))
   \<and> e_percentage (projr (fst (create_evaluation ex_request ex_wide_body ''e1''
        (ex_db\<lparr> evaluation_criteria := [ex_wide] \<rparr>)))) = Some (rd (1437 / 100))
   \<and> percentage_consistent (projr (fst (create_evaluation ex_request ex_wide_body ''e1''
        (ex_db\<lparr> evaluation_criteria := [ex_wide] \<rparr>))))"
proof -
  have c: "fst (create_evaluation ex_request ex_body ''e1'' ex_db) =
     Inr \<lparr> e_id = ''e1'', e_volunteer_id = ''v1'', e_evaluator_id = ''u1'', e_evaluation_month = 10,
       e_evaluation_year = 2026, e_is_frozen = False, e_freeze_reason = None,
       e_freeze_start_date = None, e_freeze_end_date = None, e_human_note = None,
       e_praise_note = None, e_improvement_suggestions = None, e_status = Draft,
       e_total_score = Some 10, e_max_possible_score = Some 20, e_percentage = Some 50 \<rparr>"
    by (simp add: ex_created)
  have u: "evaluations (snd (update_evaluation ex_request ''e0'' ex_update (ex_db\<lparr> evaluations := [ex_stored] \<rparr>)))
      = [ex_stored\<lparr> e_total_score := Some 10, e_max_possible_score := Some 20, e_percentage := Some 50 \<rparr>]
      \<and> \<not> isl (fst (update_evaluation ex_request ''e0'' ex_update (ex_db\<lparr> evaluations := [ex_stored] \<rparr>)))"
    by (simp add: update_evaluation_def update_transaction_def replace_details_def has_updates_def
        handler_defs ex_defs ex_update_def ex_stored_def Let_def rd_examples percentage_of_examples)
  have i: "e_id (ex_stored\<lparr> e_total_score := Some 10, e_max_possible_score := Some 20, e_percentage := Some 50 \<rparr>) = ''e0''"
    by (simp add: ex_stored_def)
  have s: "u_criteria_scores ex_update = Some [ex_entry ''c1'' (JNum (Finite 5)) None]"
    by (simp add: ex_update_def)
  show ?thesis
    using stored_percentage_double[of ex_request ex_body "''e1''" ex_db ex_request "''e0''" ex_update
        "ex_db\<lparr> evaluations := [ex_stored] \<rparr>" "[ex_entry ''c1'' (JNum (Finite 5)) None]"]
      stored_percentage_double[of ex_request ex_wide_body "''e1''" "ex_db\<lparr> evaluation_criteria := [ex_wide] \<rparr>"
        ex_request "''e0''" ex_update "ex_db\<lparr> evaluations := [ex_stored] \<rparr>"
        "[ex_entry ''c1'' (JNum (Finite 5)) None]"] c u i s ex_wide_created
    by simp
qed

section \<open>The annual freeze cap\<close>

lemma create_transaction_freeze_records:
  "is_frozen body \<Longrightarrow>
   freeze_records (snd (create_transaction req body new_id vol d))
     = freeze_records d @ [new_freeze_record req body]"
  by (simp add: create_transaction_def Let_def)

text \<open>
  Claim C8 says that every frozen creation request of a volunteer with 2 active freeze
  records of the year is rejected with the conflict \<open>FREEZE_LIMIT_EXCEEDED\<close>. The handler
  checks the freeze fields first: a request without \<open>freeze_reason\<close> is rejected with
  status 400, \<open>INCOMPLETE_FREEZE_DATA\<close>, whatever the count is.
\<close>

theorem freeze_cap_incomplete_request:
  "is_frozen (ex_frozen_body None)
   \<and> freezeCount (ex_db\<lparr> freeze_records := [ex_freeze 1, ex_freeze 2] \<rparr>) ''v1'' 2026 = 2
   \<and> create_evaluation ex_request (ex_frozen_body None) ''e1''
        (ex_db\<lparr> freeze_records := [ex_freeze 1, ex_freeze 2] \<rparr>)
      = (Inl INCOMPLETE_FREEZE_DATA, ex_db\<lparr> freeze_records := [ex_freeze 1, ex_freeze 2] \<rparr>)
   \<and> http_status INCOMPLETE_FREEZE_DATA = 400"
  by (simp add: handler_defs ex_defs ex_frozen_body_def ex_freeze_def)

text \<open>
  Claim C8, amended. A frozen creation request of a volunteer with at least 2 active
  freeze records of the year is always rejected, and the store stays as it was. When the
  request passes the checks made before the count (valid body, active volunteer, no
  evaluation stored for the period, all freeze fields present), the rejection is the
  conflict \<open>FREEZE_LIMIT_EXCEEDED\<close> (status 409) for a count of 2 or more, and for a count
  below 2 the creation proceeds: it appends one freeze record and stores the frozen
  evaluation.
\<close>

theorem freeze_cap_after_earlier_checks:
  assumes "is_frozen body"
  shows "(2 \<le> freezeCount d (volunteer_id body) (evaluation_year body) \<longrightarrow>
            isl (fst (create_evaluation req body new_id d))
            \<and> snd (create_evaluation req body new_id d) = d)
       \<and> (reaches_freeze_check req body d \<longrightarrow>
            (2 \<le> freezeCount d (volunteer_id body) (evaluation_year body) \<longrightarrow>
               create_evaluation req body new_id d = (Inl FREEZE_LIMIT_EXCEEDED, d)
               \<and> http_status FREEZE_LIMIT_EXCEEDED = 409)
          \<and> (freezeCount d (volunteer_id body) (evaluation_year body) < 2 \<longrightarrow>
               \<not> isl (fst (create_evaluation req body new_id d))
               \<and> freeze_records (snd (create_evaluation req body new_id d))
                   = freeze_records d @ [new_freeze_record req body]
               \<and> (\<exists>e \<in> set (evaluations (snd (create_evaluation req body new_id d))).
                     e_id e = new_id \<and> e_is_frozen e)))"
proof (intro conjI impI)
  assume "2 \<le> freezeCount d (volunteer_id body) (evaluation_year body)"
  with assms show "isl (fst (create_evaluation req body new_id d))"
    and "snd (create_evaluation req body new_id d) = d"
    by (simp_all add: create_evaluation_def split: list.splits)
next
  assume "reaches_freeze_check req body d"
    and "2 \<le> freezeCount d (volunteer_id body) (evaluation_year body)"
  with assms show "create_evaluation req body new_id d = (Inl FREEZE_LIMIT_EXCEEDED, d)"
    by (auto simp: create_evaluation_def reaches_freeze_check_def split: list.splits)
next
  show "http_status FREEZE_LIMIT_EXCEEDED = 409" by simp
next
  assume r: "reaches_freeze_check req body d"
    and lt: "freezeCount d (volunteer_id body) (evaluation_year body) < 2"
  from r obtain vol rest
    where v: "filter (\<lambda>v. v_id v = volunteer_id body \<and> v_is_active v) (volunteers d) = vol # rest"
    by (auto simp: reaches_freeze_check_def neq_Nil_conv)
  from r lt v have c: "create_evaluation req body new_id d =
         (Inr (fst (create_transaction req body new_id vol d)),
          snd (create_transaction req body new_id vol d))"
    by (simp add: create_evaluation_def reaches_freeze_check_def case_prod_beta)
  show "\<not> isl (fst (create_evaluation req body new_id d))" by (simp add: c)
  show "freeze_records (snd (create_evaluation req body new_id d))
                   = freeze_records d @ [new_freeze_record req body]"
    using assms by (simp add: c create_transaction_freeze_records)
  show "\<exists>e \<in> set (evaluations (snd (create_evaluation req body new_id d))).
                     e_id e = new_id \<and> e_is_frozen e"
    using assms by (simp add: c create_transaction_def Let_def set_totals_def)
qed

text \<open>
  Claim C8, amended, at a complete request of a volunteer with two freeze records (rejected)
  and with one (created).
\<close>

theorem freeze_cap_after_earlier_checks_witness:
  "is_frozen (ex_frozen_body (Some ''travel''))
   \<and> reaches_freeze_check ex_request (ex_frozen_body (Some ''travel''))
        (ex_db\<lparr> freeze_records := [ex_freeze 1, ex_freeze 2] \<rparr>)
   \<and> create_evaluation ex_request (ex_frozen_body (Some ''travel'')) ''e1''
        (ex_db\<lparr> freeze_records := [ex_freeze 1, ex_freeze 2] \<rparr>)
      = (Inl FREEZE_LIMIT_EXCEEDED, ex_db\<lparr> freeze_records := [ex_freeze 1, ex_freeze 2] \<rparr>)
   \<and> reaches_freeze_check ex_request (ex_frozen_body (Some ''travel''))
        (ex_db\<lparr> freeze_records := [ex_freeze 1] \<rparr>)
   \<and> freeze_records (snd (create_evaluation ex_request (ex_frozen_body (Some ''travel'')) ''e1''
        (ex_db\<lparr> freeze_records := [ex_freeze 1] \<rparr>)))
      = [ex_freeze 1, new_freeze_record ex_request (ex_frozen_body (Some ''travel''))]"
proof -
  have f: "is_frozen (ex_frozen_body (Some ''travel''))" by (simp add: ex_frozen_body_def)
  have r2: "reaches_freeze_check ex_request (ex_frozen_body (Some ''travel''))
        (ex_db\<lparr> freeze_records := [ex_freeze 1, ex_freeze 2] \<rparr>)"
    by (simp add: reaches_freeze_check_def ex_defs ex_frozen_body_def or_null_def)
  have r1: "reaches_freeze_check ex_request (ex_frozen_body (Some ''travel''))
        (ex_db\<lparr> freeze_records := [ex_freeze 1] \<rparr>)"
    by (simp add: reaches_freeze_check_def ex_defs ex_frozen_body_def or_null_def)
  have c2: "freezeCount (ex_db\<lparr> freeze_records := [ex_freeze 1, ex_freeze 2] \<rparr>)
              (volunteer_id (ex_frozen_body (Some ''travel''))) (evaluation_year (ex_frozen_body (Some ''travel''))) = 2"
    by (simp add: freezeCount_def ex_defs ex_frozen_body_def ex_freeze_def)
  have c1: "freezeCount (ex_db\<lparr> freeze_records := [ex_freeze 1] \<rparr>)
              (volunteer_id (ex_frozen_body (Some ''travel''))) (evaluation_year (ex_frozen_body (Some ''travel''))) = 1"
    by (simp add: freezeCount_def ex_defs ex_frozen_body_def ex_freeze_def)
  show ?thesis
    using freeze_cap_after_earlier_checks[OF f, of "ex_db\<lparr> freeze_records := [ex_freeze 1, ex_freeze 2] \<rparr>"
        ex_request "''e1''"]
      freeze_cap_after_earlier_checks[OF f, of "ex_db\<lparr> freeze_records := [ex_freeze 1] \<rparr>"
        ex_request "''e1''"] f r1 r2 c1 c2
    by (simp add: ex_db_def)
qed

section \<open>The automatic alert check\<close>

lemma weak_count_rows:
  "weak_count cy d vid = length (filter (\<lambda>e. e_volunteer_id e = vid) (weak_rows cy d))"
  by (simp add: weak_count_def weak_rows_def conj_commute conj_left_commute cong: conj_cong)

lemma weak_count_alert_records [simp]:
  "weak_count cy (d\<lparr> alert_records := x \<rparr>) vid = weak_count cy d vid"
  by (simp add: weak_count_def)

lemma consecutive_weak_alert_records [simp]:
  "consecutive_weak cy (d\<lparr> alert_records := x \<rparr>) = consecutive_weak cy d"
  by (simp add: consecutive_weak_def weak_rows_def)

lemma no_interaction_rows_alert_records [simp]:
  "no_interaction_rows cy cm (d\<lparr> alert_records := x \<rparr>) = no_interaction_rows cy cm d"
  by (simp add: no_interaction_rows_def cong: if_cong)

lemma last_two_months_alert_records [simp]:
  "last_two_months cy cm (d\<lparr> alert_records := x \<rparr>) = last_two_months cy cm d"
  by (simp add: last_two_months_def)

lemma unresolved_alerts_append:
  "unresolved_alerts (d\<lparr> alert_records := alert_records d @ xs \<rparr>) vid t
     = unresolved_alerts d vid t
       @ filter (\<lambda>ar. ar_volunteer_id ar = vid \<and> ar_alert_type ar = t \<and> ar_is_resolved ar = False) xs"
  by (simp add: unresolved_alerts_def)

lemma set_consecutive_weak:
  "(vid, n) \<in> set (consecutive_weak cy d) \<longleftrightarrow> n = weak_count cy d vid \<and> 3 \<le> n"
proof -
  have "vid \<in> e_volunteer_id ` set (weak_rows cy d)"
    if "3 \<le> length (filter (\<lambda>e. e_volunteer_id e = vid) (weak_rows cy d))"
  proof -
    from that have "filter (\<lambda>e. e_volunteer_id e = vid) (weak_rows cy d) \<noteq> []" by auto
    then have "\<exists>e \<in> set (weak_rows cy d). e_volunteer_id e = vid"
      by (simp add: filter_empty_conv)
    then show ?thesis by auto
  qed
  then show ?thesis
    by (auto simp: consecutive_weak_def Let_def weak_count_rows)
qed

lemma distinct_fst_consecutive_weak: "distinct (map fst (consecutive_weak cy d))"
proof -
  have "distinct (map fst (map (\<lambda>vid. (vid, length (filter (\<lambda>e. e_volunteer_id e = vid) (weak_rows cy d))))
                   (remdups (map e_volunteer_id (weak_rows cy d)))))"
    by (simp add: comp_def)
  then show ?thesis
    unfolding consecutive_weak_def Let_def by (rule distinct_map_filter)
qed

lemma single_volunteer:
  "distinct (map v_id vols) \<Longrightarrow>
   map (\<lambda>v. k) (filter (\<lambda>v. v_id v = vid) vols) = (if vid \<in> v_id ` set vols then [k] else [])"
  by (induction vols) (auto simp: image_iff)

lemma concat_singletons:
  "concat (map (\<lambda>(a, b). if P a then [(a, b)] else []) xs) = filter (\<lambda>r. P (fst r)) xs"
  by (induction xs) auto

lemma weakPerformanceResult_filter:
  assumes "distinct (map v_id (volunteers d))"
  shows "weakPerformanceResult cy d =
     filter (\<lambda>r. fst r \<in> v_id ` set (volunteers d))
       (filter (\<lambda>(vid, weak_months). unresolved_alerts d vid weak_performance = [])
          (consecutive_weak cy d))"
  by (simp only: weakPerformanceResult_def single_volunteer[OF assms] concat_singletons)

lemma set_weakPerformanceResult:
  "(vid, n) \<in> set (weakPerformanceResult cy d) \<longleftrightarrow>
     n = weak_count cy d vid \<and> 3 \<le> n \<and> unresolved_alerts d vid weak_performance = []
     \<and> vid \<in> v_id ` set (volunteers d)"
  using set_consecutive_weak[of vid n cy d]
  by (auto simp: weakPerformanceResult_def)

lemma distinct_fst_weakPerformanceResult:
  assumes "distinct (map v_id (volunteers d))"
  shows "distinct (map fst (weakPerformanceResult cy d))"
  unfolding weakPerformanceResult_filter[OF assms]
  by (intro distinct_map_filter) (rule distinct_fst_consecutive_weak)

lemma no_interaction_rows_name:
  assumes "distinct (map v_id (volunteers d))"
    and "k \<in> set (no_interaction_rows cy cm d)" and "k' \<in> set (no_interaction_rows cy cm d)"
    and "fst k = fst k'"
  shows "k = k'"
proof -
  from assms(2) obtain v where v: "v \<in> set (volunteers d)" "v_id v = fst k" "v_full_name v = snd k"
    by (auto simp: no_interaction_rows_def)
  from assms(3) obtain v' where v': "v' \<in> set (volunteers d)" "v_id v' = fst k'" "v_full_name v' = snd k'"
    by (auto simp: no_interaction_rows_def)
  from assms(1) have "inj_on v_id (set (volunteers d))" by (simp add: distinct_map)
  moreover from v v' assms(4) have "v_id v = v_id v'" by simp
  ultimately have "v = v'" using v(1) v'(1) by (meson inj_onD)
  with v v' assms(4) show ?thesis by (simp add: prod_eq_iff)
qed

lemma distinct_fst_last_two_months:
  assumes "distinct (map v_id (volunteers d))"
  shows "distinct (map fst (last_two_months cy cm d))"
proof -
  let ?rows = "no_interaction_rows cy cm d"
  have "inj_on fst (set (remdups ?rows))"
    using no_interaction_rows_name[OF assms] by (auto simp: inj_on_def)
  then have "distinct (map fst (remdups ?rows))" by (simp add: distinct_map)
  then have "distinct (map fst (map (\<lambda>k. (fst k, length (filter (\<lambda>r. r = k) ?rows))) (remdups ?rows)))"
    by (simp add: comp_def)
  then show ?thesis
    unfolding last_two_months_def Let_def by (rule distinct_map_filter)
qed

lemma open_alert_keys_unresolved:
  "(vid, t) \<in> set (open_alert_keys d) \<longleftrightarrow> unresolved_alerts d vid t \<noteq> []"
  by (auto simp: open_alert_keys_def alert_key_def unresolved_alerts_def filter_empty_conv)

lemma check_automatic_unfold:
  "check_automatic cy cm d =
     (map weak_alert (weakPerformanceResult cy d)
        @ map no_interaction_alert
            (noInteractionResult cy cm
               (d\<lparr> alert_records := alert_records d @ map weak_alert (weakPerformanceResult cy d) \<rparr>)),
      d\<lparr> alert_records := alert_records d @ map weak_alert (weakPerformanceResult cy d)
           @ map no_interaction_alert
               (noInteractionResult cy cm
                  (d\<lparr> alert_records := alert_records d @ map weak_alert (weakPerformanceResult cy d) \<rparr>)) \<rparr>)"
  by (simp add: check_automatic_def Let_def)

lemma weak_alert_fields [simp]:
  "ar_volunteer_id (weak_alert r) = fst r" "ar_alert_type (weak_alert r) = weak_performance"
  "ar_is_resolved (weak_alert r) = False" "ar_severity (weak_alert r) = high"
  "tc_months (ar_trigger_condition (weak_alert r)) = snd r"
  "tc_threshold (ar_trigger_condition (weak_alert r)) = 60"
  by (simp_all add: weak_alert_def is_resolved_default_def)

lemma no_interaction_alert_fields [simp]:
  "ar_volunteer_id (no_interaction_alert r) = fst r"
  "ar_alert_type (no_interaction_alert r) = no_interaction"
  "ar_is_resolved (no_interaction_alert r) = False" "ar_severity (no_interaction_alert r) = medium"
  "tc_months (ar_trigger_condition (no_interaction_alert r)) = snd r"
  "tc_threshold (ar_trigger_condition (no_interaction_alert r)) = 3"
  by (simp_all add: no_interaction_alert_def is_resolved_default_def)

lemma weakPerformanceResult_second_run:
  assumes "set (map weak_alert (weakPerformanceResult cy d)) \<subseteq> set xs"
  shows "weakPerformanceResult cy (d\<lparr> alert_records := alert_records d @ xs \<rparr>) = []"
proof -
  let ?d2 = "d\<lparr> alert_records := alert_records d @ xs \<rparr>"
  have "r \<notin> set (weakPerformanceResult cy ?d2)" for r
  proof
    assume "r \<in> set (weakPerformanceResult cy ?d2)"
    then have "(fst r, snd r) \<in> set (weakPerformanceResult cy ?d2)" by simp
    then have n: "snd r = weak_count cy d (fst r)" "3 \<le> snd r"
      and u: "unresolved_alerts ?d2 (fst r) weak_performance = []"
      and v: "fst r \<in> v_id ` set (volunteers d)"
      unfolding set_weakPerformanceResult by simp_all
    from u have u0: "unresolved_alerts d (fst r) weak_performance = []"
      and no: "filter (\<lambda>ar. ar_volunteer_id ar = fst r \<and> ar_alert_type ar = weak_performance
                         \<and> ar_is_resolved ar = False) xs = []"
      by (simp_all add: unresolved_alerts_append)
    from n u0 v have "(fst r, snd r) \<in> set (weakPerformanceResult cy d)"
      unfolding set_weakPerformanceResult by simp
    then have "weak_alert r \<in> set (map weak_alert (weakPerformanceResult cy d))" by simp
    with assms have "weak_alert r \<in> set xs" by blast
    with no show False by (auto simp: filter_empty_conv)
  qed
  then show ?thesis by (cases "weakPerformanceResult cy ?d2") auto
qed

lemma noInteractionResult_second_run:
  assumes "set (map no_interaction_alert (noInteractionResult cy cm d)) \<subseteq> set xs"
  shows "noInteractionResult cy cm (d\<lparr> alert_records := alert_records d @ xs \<rparr>) = []"
proof -
  let ?d2 = "d\<lparr> alert_records := alert_records d @ xs \<rparr>"
  have "r \<notin> set (noInteractionResult cy cm ?d2)" for r
  proof
    assume "r \<in> set (noInteractionResult cy cm ?d2)"
    then have m: "r \<in> set (last_two_months cy cm d)"
      and u: "unresolved_alerts ?d2 (fst r) no_interaction = []"
      by (auto simp: noInteractionResult_def)
    from u have u0: "unresolved_alerts d (fst r) no_interaction = []"
      and no: "filter (\<lambda>ar. ar_volunteer_id ar = fst r \<and> ar_alert_type ar = no_interaction
                         \<and> ar_is_resolved ar = False) xs = []"
      by (simp_all add: unresolved_alerts_append)
    from m u0 have "r \<in> set (noInteractionResult cy cm d)"
      by (auto simp: noInteractionResult_def)
    then have "no_interaction_alert r \<in> set (map no_interaction_alert (noInteractionResult cy cm d))"
      by simp
    with assms have "no_interaction_alert r \<in> set xs" by blast
    with no show False by (auto simp: filter_empty_conv)
  qed
  then show ?thesis by (cases "noInteractionResult cy cm ?d2") auto
qed

lemma check_automatic_second_run:
  "fst (check_automatic cy cm (snd (check_automatic cy cm d))) = []"
proof -
  let ?A = "map weak_alert (weakPerformanceResult cy d)"
  let ?d1 = "d\<lparr> alert_records := alert_records d @ ?A \<rparr>"
  let ?B = "map no_interaction_alert (noInteractionResult cy cm ?d1)"
  let ?d2 = "d\<lparr> alert_records := alert_records d @ ?A @ ?B \<rparr>"
  have s: "snd (check_automatic cy cm d) = ?d2"
    by (simp add: check_automatic_unfold)
  have w: "weakPerformanceResult cy ?d2 = []"
    by (rule weakPerformanceResult_second_run) auto
  have "?d2 = ?d1\<lparr> alert_records := alert_records ?d1 @ ?B \<rparr>" by simp
  moreover have "noInteractionResult cy cm (?d1\<lparr> alert_records := alert_records ?d1 @ ?B \<rparr>) = []"
    by (rule noInteractionResult_second_run) simp
  ultimately have n: "noInteractionResult cy cm ?d2 = []" by simp
  have "fst (check_automatic cy cm ?d2) = []"
    unfolding check_automatic_unfold fst_conv w using n by simp
  with s show ?thesis by simp
qed

lemma distinct_keys: "distinct (map fst rs) \<Longrightarrow> distinct (map (\<lambda>r. (fst r, t)) rs)"
proof -
  assume "distinct (map fst rs)"
  moreover have "inj_on (\<lambda>v. (v, t)) (set (map fst rs))" by (simp add: inj_on_def)
  ultimately have "distinct (map (\<lambda>v. (v, t)) (map fst rs))" by (simp only: distinct_map)
  then show ?thesis by (simp add: comp_def)
qed

lemma open_alert_keys_append:
  "open_alert_keys (d\<lparr> alert_records := alert_records d @ xs \<rparr>)
     = open_alert_keys d @ map alert_key (filter (\<lambda>ar. ar_is_resolved ar = False) xs)"
  by (simp add: open_alert_keys_def)

lemma check_automatic_open_keys:
  "open_alert_keys (snd (check_automatic cy cm d))
     = open_alert_keys d @ map alert_key (fst (check_automatic cy cm d))"
proof -
  have "filter (\<lambda>ar. ar_is_resolved ar = False) (fst (check_automatic cy cm d))
          = fst (check_automatic cy cm d)"
    by (simp add: check_automatic_unfold filter_map comp_def)
  moreover have "snd (check_automatic cy cm d)
          = d\<lparr> alert_records := alert_records d @ fst (check_automatic cy cm d) \<rparr>"
    by (simp add: check_automatic_unfold)
  ultimately show ?thesis by (simp only: open_alert_keys_append)
qed

lemma check_automatic_new_keys:
  assumes pk: "distinct (map v_id (volunteers d))"
  shows "distinct (map alert_key (fst (check_automatic cy cm d)))"
    and "set (map alert_key (fst (check_automatic cy cm d))) \<inter> set (open_alert_keys d) = {}"
proof -
  let ?W = "weakPerformanceResult cy d"
  let ?d1 = "d\<lparr> alert_records := alert_records d @ map weak_alert ?W \<rparr>"
  let ?S = "noInteractionResult cy cm ?d1"
  have new: "map alert_key (fst (check_automatic cy cm d))
          = map (\<lambda>r. (fst r, weak_performance)) ?W @ map (\<lambda>r. (fst r, no_interaction)) ?S"
    by (simp add: check_automatic_unfold alert_key_def comp_def)
  have k1: "open_alert_keys ?d1 = open_alert_keys d @ map (\<lambda>r. (fst r, weak_performance)) ?W"
    by (simp add: open_alert_keys_append alert_key_def filter_map comp_def)
  have dW: "distinct (map (\<lambda>r. (fst r, weak_performance)) ?W)"
    by (rule distinct_keys) (rule distinct_fst_weakPerformanceResult[OF pk])
  have newW: "(fst r, weak_performance) \<notin> set (open_alert_keys d)" if "r \<in> set ?W" for r
  proof -
    from that have "(fst r, snd r) \<in> set ?W" by simp
    then have "unresolved_alerts d (fst r) weak_performance = []"
      unfolding set_weakPerformanceResult by simp
    then show ?thesis by (simp add: open_alert_keys_unresolved)
  qed
  have "distinct (map fst (last_two_months cy cm ?d1))"
    by (rule distinct_fst_last_two_months) (simp add: pk)
  then have "distinct (map fst ?S)"
    unfolding noInteractionResult_def by (rule distinct_map_filter)
  then have dS: "distinct (map (\<lambda>r. (fst r, no_interaction)) ?S)" by (rule distinct_keys)
  have newS: "(fst r, no_interaction) \<notin> set (open_alert_keys ?d1)" if "r \<in> set ?S" for r
  proof -
    from that have "unresolved_alerts ?d1 (fst r) no_interaction = []"
      by (auto simp: noInteractionResult_def)
    then show ?thesis by (simp only: open_alert_keys_unresolved)
  qed
  show "distinct (map alert_key (fst (check_automatic cy cm d)))"
    unfolding new using dW dS by auto
  show "set (map alert_key (fst (check_automatic cy cm d))) \<inter> set (open_alert_keys d) = {}"
    unfolding new using newW newS by (auto simp: k1)
qed

lemma ex_weak_result: "weakPerformanceResult 2026 ex_weak_db = [(''v1'', 3)]"
proof -
  have "consecutive_weak 2026 ex_weak_db = [(''v1'', 3)]"
    by (simp add: consecutive_weak_def weak_rows_def ex_alert_defs)
  then show ?thesis
    by (simp add: weakPerformanceResult_def unresolved_alerts_def) (simp add: ex_alert_defs)
qed

lemma ex_weak_silent: "noInteractionResult 2026 11 (ex_weak_db\<lparr> alert_records := x \<rparr>) = []"
proof -
  have "no_interaction_rows 2026 11 ex_weak_db = []"
    by (simp add: no_interaction_rows_def ex_alert_defs)
  then show ?thesis
    by (simp add: noInteractionResult_def last_two_months_def)
qed

lemma ex_weak_alerts: "fst (check_automatic 2026 11 ex_weak_db) = [weak_alert (''v1'', 3)]"
  by (simp add: check_automatic_unfold ex_weak_result ex_weak_silent)

text \<open>
  Claim C7. A second run of the check on the store that the first run left, for the same
  date, inserts no alert. Consequently at most one unresolved alert per key
  \<open>(volunteer_id, alert_type)\<close> results from the rule engine: with unique volunteer ids
  (the primary key), the alerts of one run have pairwise different keys, none of them is
  the key of an alert that was unresolved before the run, and a store whose unresolved
  alerts have pairwise different keys keeps that property.
\<close>

theorem check_automatic_idempotent:
  "fst (check_automatic cy cm (snd (check_automatic cy cm d))) = []
   \<and> (distinct (map v_id (volunteers d)) \<longrightarrow>
        distinct (map alert_key (fst (check_automatic cy cm d)))
        \<and> set (map alert_key (fst (check_automatic cy cm d))) \<inter> set (open_alert_keys d) = {}
        \<and> (distinct (open_alert_keys d)
             \<longrightarrow> distinct (open_alert_keys (snd (check_automatic cy cm d)))))"
proof (intro conjI impI)
  show "fst (check_automatic cy cm (snd (check_automatic cy cm d))) = []"
    by (rule check_automatic_second_run)
next
  assume pk: "distinct (map v_id (volunteers d))"
  show "distinct (map alert_key (fst (check_automatic cy cm d)))"
    by (rule check_automatic_new_keys(1)[OF pk])
  show "set (map alert_key (fst (check_automatic cy cm d))) \<inter> set (open_alert_keys d) = {}"
    by (rule check_automatic_new_keys(2)[OF pk])
  assume "distinct (open_alert_keys d)"
  then show "distinct (open_alert_keys (snd (check_automatic cy cm d)))"
    using check_automatic_new_keys[OF pk, of cy cm]
    by (simp only: check_automatic_open_keys distinct_append) (simp add: Int_commute)
qed

text \<open>
  Claim C7, at the store with three weak evaluations: the first run inserts one alert, the
  second none.
\<close>

theorem check_automatic_idempotent_witness:
  "distinct (map v_id (volunteers ex_weak_db))
   \<and> distinct (open_alert_keys ex_weak_db)
   \<and> map alert_key (fst (check_automatic 2026 11 ex_weak_db)) = [(''v1'', weak_performance)]
   \<and> fst (check_automatic 2026 11 (snd (check_automatic 2026 11 ex_weak_db))) = []
   \<and> distinct (open_alert_keys (snd (check_automatic 2026 11 ex_weak_db)))"
proof -
  have p: "distinct (map v_id (volunteers ex_weak_db))" by (simp add: ex_weak_db_def)
  have k: "distinct (open_alert_keys ex_weak_db)" by (simp add: open_alert_keys_def ex_weak_db_def)
  show ?thesis
    using check_automatic_idempotent[of 2026 11 ex_weak_db] p k
    by (simp add: ex_weak_alerts alert_key_def)
qed

text \<open>
  Claim C5 counts the evaluations within the trailing 12 months. The query filters by
  \<open>evaluation_year >= current year - 1\<close> instead: in November 2026 the three weak
  evaluations of January to March 2025, 20 to 22 months back, make the check emit a
  \<open>weak_performance\<close> alert although no weak evaluation lies within the trailing 12 months.
\<close>

theorem weak_performance_window_counterexample:
  "fst (check_automatic 2026 11 ex_weak_db) = [weak_alert (''v1'', 3)]
   \<and> ar_volunteer_id (weak_alert (''v1'', 3)) = ''v1''
   \<and> ar_alert_type (weak_alert (''v1'', 3)) = weak_performance
   \<and> unresolved_alerts ex_weak_db ''v1'' weak_performance = []
   \<and> trailing_weak_count 2026 11 ex_weak_db ''v1'' = 0"
proof -
  have "trailing_weak_count 2026 11 ex_weak_db ''v1'' = 0"
    by (simp add: trailing_weak_count_def within_trailing_months_def ex_alert_defs)
  moreover have "unresolved_alerts ex_weak_db ''v1'' weak_performance = []"
    by (simp add: unresolved_alerts_def ex_weak_db_def)
  ultimately show ?thesis by (simp add: ex_weak_alerts)
qed

text \<open>
  Claim C5, amended. For a volunteer with a row in \<open>volunteers\<close>, the check emits a
  \<open>weak_performance\<close> alert if and only if the count of the volunteer's approved
  evaluations with \<open>evaluation_year >= current year - 1\<close> and a percentage below 60 is at
  least 3 and no unresolved \<open>weak_performance\<close> alert exists for the volunteer. Every such
  alert is unresolved, has severity \<open>high\<close> and carries that count as \<open>months\<close> and 60 as
  \<open>threshold\<close>.
\<close>

theorem weak_performance_alert_iff:
  assumes "vid \<in> v_id ` set (volunteers d)"
  shows "((\<exists>a \<in> set (fst (check_automatic cy cm d)).
              ar_volunteer_id a = vid \<and> ar_alert_type a = weak_performance)
          \<longleftrightarrow> 3 \<le> weak_count cy d vid \<and> unresolved_alerts d vid weak_performance = [])
       \<and> (\<forall>a \<in> set (fst (check_automatic cy cm d)).
             ar_volunteer_id a = vid \<and> ar_alert_type a = weak_performance \<longrightarrow>
               ar_severity a = high
               \<and> tc_months (ar_trigger_condition a) = weak_count cy d vid
               \<and> tc_threshold (ar_trigger_condition a) = 60
               \<and> ar_is_resolved a = False)"
proof -
  let ?W = "weakPerformanceResult cy d"
  let ?S = "noInteractionResult cy cm (d\<lparr> alert_records := alert_records d @ map weak_alert ?W \<rparr>)"
  have f: "fst (check_automatic cy cm d) = map weak_alert ?W @ map no_interaction_alert ?S"
    by (simp add: check_automatic_unfold)
  have weak: "(a \<in> set (fst (check_automatic cy cm d)) \<and> ar_volunteer_id a = vid
                \<and> ar_alert_type a = weak_performance)
            \<longleftrightarrow> (a = weak_alert (vid, weak_count cy d vid) \<and> 3 \<le> weak_count cy d vid
                 \<and> unresolved_alerts d vid weak_performance = [])" for a
  proof
    assume l: "a \<in> set (fst (check_automatic cy cm d)) \<and> ar_volunteer_id a = vid
                \<and> ar_alert_type a = weak_performance"
    then have "a \<in> set (map weak_alert ?W)" unfolding f by auto
    then obtain r where r: "r \<in> set ?W" "a = weak_alert r" by auto
    with l have "fst r = vid" by simp
    then have "(vid, snd r) = r" by (simp add: prod_eq_iff)
    with r(1) have "(vid, snd r) \<in> set ?W" by simp
    then have "snd r = weak_count cy d vid \<and> 3 \<le> snd r \<and> unresolved_alerts d vid weak_performance = []"
      unfolding set_weakPerformanceResult by simp
    with r(2) \<open>fst r = vid\<close> show "a = weak_alert (vid, weak_count cy d vid) \<and> 3 \<le> weak_count cy d vid
                 \<and> unresolved_alerts d vid weak_performance = []"
      by (metis prod.collapse)
  next
    assume r: "a = weak_alert (vid, weak_count cy d vid) \<and> 3 \<le> weak_count cy d vid
                 \<and> unresolved_alerts d vid weak_performance = []"
    with assms have "(vid, weak_count cy d vid) \<in> set ?W"
      unfolding set_weakPerformanceResult by simp
    with r show "a \<in> set (fst (check_automatic cy cm d)) \<and> ar_volunteer_id a = vid
                \<and> ar_alert_type a = weak_performance"
      unfolding f by auto
  qed
  show ?thesis
  proof (intro conjI ballI impI)
    show "(\<exists>a \<in> set (fst (check_automatic cy cm d)).
              ar_volunteer_id a = vid \<and> ar_alert_type a = weak_performance)
          \<longleftrightarrow> 3 \<le> weak_count cy d vid \<and> unresolved_alerts d vid weak_performance = []"
      using weak by blast
  next
    fix a
    assume "a \<in> set (fst (check_automatic cy cm d))"
      and "ar_volunteer_id a = vid \<and> ar_alert_type a = weak_performance"
    then have a: "a = weak_alert (vid, weak_count cy d vid)" using weak[of a] by blast
    show "ar_severity a = high" and "tc_months (ar_trigger_condition a) = weak_count cy d vid"
      and "tc_threshold (ar_trigger_condition a) = 60" and "ar_is_resolved a = False"
      by (simp_all add: a)
  qed
qed

text \<open>Claim C5, amended, at the store with three weak evaluations of the previous year.\<close>

theorem weak_performance_alert_iff_witness:
  "''v1'' \<in> v_id ` set (volunteers ex_weak_db)
   \<and> weak_count 2026 ex_weak_db ''v1'' = 3
   \<and> unresolved_alerts ex_weak_db ''v1'' weak_performance = []
   \<and> (\<exists>a \<in> set (fst (check_automatic 2026 11 ex_weak_db)).
         ar_volunteer_id a = ''v1'' \<and> ar_alert_type a = weak_performance
         \<and> ar_severity a = high \<and> tc_months (ar_trigger_condition a) = 3
         \<and> tc_threshold (ar_trigger_condition a) = 60)"
proof -
  have v: "''v1'' \<in> v_id ` set (volunteers ex_weak_db)"
    by (simp add: ex_weak_db_def ex_volunteer_def)
  have c: "weak_count 2026 ex_weak_db ''v1'' = 3"
    by (simp add: weak_count_def ex_alert_defs)
  have u: "unresolved_alerts ex_weak_db ''v1'' weak_performance = []"
    by (simp add: unresolved_alerts_def ex_weak_db_def)
  from weak_performance_alert_iff[OF v, of 2026 11] c u
  obtain a where "a \<in> set (fst (check_automatic 2026 11 ex_weak_db))"
    "ar_volunteer_id a = ''v1''" "ar_alert_type a = weak_performance"
    by auto
  with weak_performance_alert_iff[OF v, of 2026 11] c
  have "a \<in> set (fst (check_automatic 2026 11 ex_weak_db)) \<and>
         ar_volunteer_id a = ''v1'' \<and> ar_alert_type a = weak_performance
         \<and> ar_severity a = high \<and> tc_months (ar_trigger_condition a) = 3
         \<and> tc_threshold (ar_trigger_condition a) = 60"
    by auto
  then have "\<exists>a \<in> set (fst (check_automatic 2026 11 ex_weak_db)).
         ar_volunteer_id a = ''v1'' \<and> ar_alert_type a = weak_performance
         \<and> ar_severity a = high \<and> tc_months (ar_trigger_condition a) = 3
         \<and> tc_threshold (ar_trigger_condition a) = 60"
    by blast
  with v c u show ?thesis by blast
qed

lemma ex_draft_rows:
  "no_interaction_rows 2026 11 ex_draft_db = [(''v1'', ''Amal''), (''v1'', ''Amal'')]"
  by (simp add: no_interaction_rows_def no_interaction_where_def ilike_contains_def ex_alert_defs)

lemma ex_draft_weak: "weakPerformanceResult 2026 ex_draft_db = []"
proof -
  have "weak_rows 2026 ex_draft_db = []"
    by (simp add: weak_rows_def ex_alert_defs)
  then show ?thesis by (simp add: weakPerformanceResult_def consecutive_weak_def)
qed

text \<open>
  Claim C6 says that only approved, non-frozen evaluations of the trailing 2 months with a
  score that is null or below 3 count toward a \<open>no_interaction\<close> alert. In the query the
  first \<open>ILIKE\<close> is joined by \<open>OR\<close> with all the other conditions, so a row of a criterion
  whose name contains the first pattern counts whatever its evaluation is: two draft,
  frozen evaluations of 2020 with the score 10 make the check of November 2026 emit a
  \<open>no_interaction\<close> alert with the count 2, although no joined row qualifies.
\<close>

theorem no_interaction_counts_unqualified_rows:
  "fst (check_automatic 2026 11 ex_draft_db) = [no_interaction_alert (''v1'', 2)]
   \<and> ar_severity (no_interaction_alert (''v1'', 2)) = medium
   \<and> map (\<lambda>e. (e_status e, e_is_frozen e, e_evaluation_year e)) (evaluations ex_draft_db)
       = [(Draft, True, 2020), (Draft, True, 2020)]
   \<and> map ed_score_value (evaluation_details ex_draft_db) = [Some 10, Some 10]
   \<and> [(e, ed, ec). e \<leftarrow> evaluations ex_draft_db, ed \<leftarrow> evaluation_details ex_draft_db,
          ec \<leftarrow> evaluation_criteria ex_draft_db, qualifies_no_interaction 2026 11 e ed ec] = []"
proof -
  have "last_two_months 2026 11 ex_draft_db = [(''v1'', 2)]"
    by (simp add: last_two_months_def ex_draft_rows)
  then have "noInteractionResult 2026 11 (ex_draft_db\<lparr> alert_records := alert_records ex_draft_db @ [] \<rparr>)
               = [(''v1'', 2)]"
    by (simp add: noInteractionResult_def unresolved_alerts_def) (simp add: ex_draft_db_def)
  then have "fst (check_automatic 2026 11 ex_draft_db) = [no_interaction_alert (''v1'', 2)]"
    by (simp add: check_automatic_unfold ex_draft_weak)
  moreover have "[(e, ed, ec). e \<leftarrow> evaluations ex_draft_db, ed \<leftarrow> evaluation_details ex_draft_db,
          ec \<leftarrow> evaluation_criteria ex_draft_db, qualifies_no_interaction 2026 11 e ed ec] = []"
    by (simp add: qualifies_no_interaction_def ex_alert_defs)
  moreover have "map (\<lambda>e. (e_status e, e_is_frozen e, e_evaluation_year e)) (evaluations ex_draft_db)
       = [(Draft, True, 2020), (Draft, True, 2020)]"
    by (simp add: ex_alert_defs)
  moreover have "map ed_score_value (evaluation_details ex_draft_db) = [Some 10, Some 10]"
    by (simp add: ex_alert_defs)
  ultimately show ?thesis by simp
qed

section \<open>Consistency\<close>


lemma js_sub_NaN [simp]: "js_sub a NaN = NaN"
  by (cases a) (simp_all add: js_sub_def)

lemma js_add_NaN [simp]: "js_add a NaN = NaN"
  by (cases a) simp_all

lemma js_div_NaN [simp]: "js_div NaN b = NaN"
  by (cases b) simp_all








end
